(* ===== verification/Prelude.thy ===== *)
theory Prelude
  imports Main
begin

text \<open>
  Shared vocabulary of the portfolio page model: the result type of browser calls that
  may throw, JavaScript truthiness of the values the page tests, React's rule that the
  last queued state update wins, and the generic list facts the components share.
\<close>

section \<open>Collections\<close>

named_theorems page_defs \<open>definitions of the page model unfolded by the step lemmas\<close>

section \<open>Types shared by the components\<close>

type_synonym ms = nat \<comment> \<open>a time stamp or delay in milliseconds\<close>
type_synonym px = int \<comment> \<open>a CSS pixel offset (\<open>window.scrollY\<close>)\<close>
type_synonym js_string = string

section \<open>Throwing calls: \<open>'e + 'a\<close>\<close>

text \<open>
  A browser call that may throw returns \<open>Inl\<close> of the exception; the page code never
  catches, so a throwing call ends the handler that made it.
\<close>

definition ok_bind :: "'e + 'a \<Rightarrow> ('a \<Rightarrow> 'e + 'b) \<Rightarrow> 'e + 'b" where
  "ok_bind m f = (case m of Inl e \<Rightarrow> Inl e | Inr a \<Rightarrow> f a)"

lemma ok_bind_Inr [simp]: "ok_bind (Inr a) f = f a"
  by (simp add: ok_bind_def)

lemma ok_bind_Inl [simp]: "ok_bind (Inl e) f = Inl e"
  by (simp add: ok_bind_def)

lemma ok_bind_eq_Inr:
  "ok_bind m f = Inr b \<longleftrightarrow> (\<exists>a. m = Inr a \<and> f a = Inr b)"
  by (cases m) auto

lemma ok_bind_eq_Inl:
  "ok_bind m f = Inl e \<longleftrightarrow> m = Inl e \<or> (\<exists>a. m = Inr a \<and> f a = Inl e)"
  by (cases m) auto

section \<open>JavaScript truthiness\<close>

text \<open>
  \<open>localStorage.getItem\<close> returns a string or \<open>null\<close>; \<open>!v\<close> is true for \<open>null\<close> and
  for the empty string.
\<close>

definition js_falsy_str :: "js_string option \<Rightarrow> bool" where
  "js_falsy_str v = (v = None \<or> v = Some [])"

lemma js_falsy_str_simps [simp]:
  "js_falsy_str None"
  "js_falsy_str (Some s) \<longleftrightarrow> s = []"
  by (auto simp: js_falsy_str_def)

section \<open>Queued state updates\<close>

text \<open>
  A React setter called during a commit queues its value; the queued values of one
  commit are applied in order, so the last one wins.
\<close>

definition queue_update :: "'a option \<Rightarrow> 'a option \<Rightarrow> 'a option" where
  "queue_update old new = (case new of None \<Rightarrow> old | Some v \<Rightarrow> Some v)"

definition commit_value :: "'a \<Rightarrow> 'a option \<Rightarrow> 'a" where
  "commit_value cur q = (case q of None \<Rightarrow> cur | Some v \<Rightarrow> v)"

lemma queue_update_simps [simp]:
  "queue_update q None = q"
  "queue_update q (Some v) = Some v"
  by (simp_all add: queue_update_def)

lemma commit_value_simps [simp]:
  "commit_value c None = c"
  "commit_value c (Some v) = v"
  by (simp_all add: commit_value_def)

section \<open>Lists\<close>

text \<open>Entries of a list with pairwise distinct keys that carry one given key.\<close>

lemma length_filter_key_le_1:
  "distinct (map f xs) \<Longrightarrow> length (filter (\<lambda>x. f x = k) xs) \<le> 1"
proof (induction xs)
  case Nil
  then show ?case by simp
next
  case (Cons x xs)
  then have "k = f x \<Longrightarrow> filter (\<lambda>y. f y = k) xs = []"
    by (auto simp: filter_empty_conv image_iff)
  with Cons show ?case by auto
qed

lemma filter_key_unique:
  "distinct (map f xs) \<Longrightarrow> x \<in> set xs \<Longrightarrow> filter (\<lambda>y. f y = f x) xs = [x]"
proof (induction xs)
  case Nil
  then show ?case by simp
next
  case (Cons y xs)
  show ?case
  proof (cases "y = x")
    case True
    with Cons.prems have "filter (\<lambda>z. f z = f x) xs = []"
      by (auto simp: filter_empty_conv image_iff)
    with True show ?thesis by simp
  next
    case False
    with Cons.prems have "x \<in> set xs" and "f y \<noteq> f x"
      by auto
    with Cons show ?thesis by simp
  qed
qed

lemma length_le_1_member: "length xs \<le> 1 \<Longrightarrow> x \<in> set xs \<Longrightarrow> xs = [x]"
  by (cases xs) auto

end
