(* ===== verification/Browser.thy ===== *)
theory Browser
  imports Prelude
begin

text \<open>
  The browser environment the page calls into: \<open>window.localStorage\<close>, the class list
  of \<open>document.documentElement\<close>, \<open>window.matchMedia\<close>, \<open>window.scrollY\<close> with its
  scroll listener, and the timer queue of \<open>setTimeout\<close>. None of this is code of the
  repository; it is modelled from the Web platform behaviour the page relies on, with the
  failures the page does not guard against (a full or denied storage) kept as values.
  The record is parametric in the type \<open>'cb\<close> of timer callbacks, which the page fixes.
\<close>

section \<open>Storage failures\<close>

text \<open>
  \<open>Storage_full\<close> is a storage whose quota is exhausted (as in private browsing modes with
  a zero quota): every \<open>setItem\<close> throws \<open>QuotaExceededError\<close>. \<open>Storage_denied\<close>
  is a storage the user blocked: every access throws \<open>SecurityError\<close>.
\<close>

datatype storage_mode = Storage_ok | Storage_full | Storage_denied

datatype dom_error = Quota_exceeded_error | Security_error

record 'cb browser =
  local_storage :: "js_string \<rightharpoonup> js_string"
  storage_mode :: storage_mode
  prefers_dark :: bool \<comment> \<open>\<open>(prefers-color-scheme: dark)\<close> matches\<close>
  root_classes :: "js_string set" \<comment> \<open>\<open>document.documentElement.classList\<close>\<close>
  scroll_y :: px
  scroll_listener :: bool \<comment> \<open>the page's scroll handler is registered\<close>
  clock :: ms
  timers :: "(ms \<times> 'cb) list" \<comment> \<open>pending \<open>setTimeout\<close> callbacks with their due time\<close>

section \<open>Web APIs\<close>

definition ls_get_item :: "js_string \<Rightarrow> 'cb browser \<Rightarrow> dom_error + js_string option" where
  "ls_get_item k b =
     (if storage_mode b = Storage_denied then Inl Security_error else Inr (local_storage b k))"

definition ls_set_item :: "js_string \<Rightarrow> js_string \<Rightarrow> 'cb browser \<Rightarrow> dom_error + 'cb browser" where
  "ls_set_item k v b =
     (case storage_mode b of
        Storage_ok \<Rightarrow> Inr (b\<lparr>local_storage := (local_storage b)(k \<mapsto> v)\<rparr>)
      | Storage_full \<Rightarrow> Inl Quota_exceeded_error
      | Storage_denied \<Rightarrow> Inl Security_error)"

definition match_media_dark :: "'cb browser \<Rightarrow> bool" where
  "match_media_dark b = prefers_dark b"

definition class_list_add :: "js_string \<Rightarrow> 'cb browser \<Rightarrow> 'cb browser" where
  "class_list_add c b = b\<lparr>root_classes := insert c (root_classes b)\<rparr>"

definition class_list_remove :: "js_string \<Rightarrow> 'cb browser \<Rightarrow> 'cb browser" where
  "class_list_remove c b = b\<lparr>root_classes := root_classes b - {c}\<rparr>"

definition add_scroll_listener :: "'cb browser \<Rightarrow> 'cb browser" where
  "add_scroll_listener b = b\<lparr>scroll_listener := True\<rparr>"

definition remove_scroll_listener :: "'cb browser \<Rightarrow> 'cb browser" where
  "remove_scroll_listener b = b\<lparr>scroll_listener := False\<rparr>"

definition window_scroll_to :: "px \<Rightarrow> 'cb browser \<Rightarrow> 'cb browser" where
  "window_scroll_to y b = b\<lparr>scroll_y := y\<rparr>"

definition set_timeout :: "'cb \<Rightarrow> ms \<Rightarrow> 'cb browser \<Rightarrow> 'cb browser" where
  "set_timeout cb delay b = b\<lparr>timers := timers b @ [(clock b + delay, cb)]\<rparr>"

text \<open>
  Time passing: the clock advances by \<open>d\<close>; every callback whose due time has come is
  taken off the queue and returned in firing order (by due time, ties in the order they
  were scheduled, which the stable \<open>sort_key\<close> keeps).
\<close>

definition due_callbacks :: "ms \<Rightarrow> (ms \<times> 'cb) list \<Rightarrow> 'cb list" where
  "due_callbacks now ts = map snd (sort_key fst (filter (\<lambda>(t, _). t \<le> now) ts))"

definition advance_clock :: "ms \<Rightarrow> 'cb browser \<Rightarrow> 'cb list \<times> 'cb browser" where
  "advance_clock d b =
     (let now = clock b + d
      in (due_callbacks now (timers b),
          b\<lparr>clock := now, timers := filter (\<lambda>(t, _). \<not> t \<le> now) (timers b)\<rparr>))"

text \<open>
  A reload gives a fresh document: the server-rendered \<open><html>\<close> has no class, no
  script listener survives and every timer is dropped; storage, the colour-scheme
  preference and the restored scroll position remain.
\<close>

definition fresh_document :: "'cb browser \<Rightarrow> 'cb browser" where
  "fresh_document b = b\<lparr>root_classes := {}, scroll_listener := False, timers := []\<rparr>"

lemmas browser_api_defs [page_defs] =
  ls_get_item_def ls_set_item_def match_media_dark_def class_list_add_def
  class_list_remove_def add_scroll_listener_def remove_scroll_listener_def
  window_scroll_to_def set_timeout_def fresh_document_def

section \<open>Storage: behaviour of each call\<close>

lemma ls_set_item_ok:
  "storage_mode b = Storage_ok \<Longrightarrow>
   ls_set_item k v b = Inr (b\<lparr>local_storage := (local_storage b)(k \<mapsto> v)\<rparr>)"
  by (simp add: ls_set_item_def)

lemma ls_set_item_fails:
  "storage_mode b \<noteq> Storage_ok \<Longrightarrow> \<exists>e. ls_set_item k v b = Inl e"
  by (cases "storage_mode b") (auto simp: ls_set_item_def)

lemma ls_set_item_Inr_iff:
  "ls_set_item k v b = Inr b' \<longleftrightarrow>
   storage_mode b = Storage_ok \<and> b' = b\<lparr>local_storage := (local_storage b)(k \<mapsto> v)\<rparr>"
  by (cases "storage_mode b") (auto simp: ls_set_item_def)

lemma ls_get_item_not_denied:
  "storage_mode b \<noteq> Storage_denied \<Longrightarrow> ls_get_item k b = Inr (local_storage b k)"
  by (simp add: ls_get_item_def)

text \<open>\<open>setItem\<close> changes the storage only; \<open>getItem\<close> reads what it wrote.\<close>

lemma ls_set_item_frame:
  assumes "ls_set_item k v b = Inr b'"
  shows "storage_mode b' = storage_mode b" "prefers_dark b' = prefers_dark b"
    "root_classes b' = root_classes b" "scroll_y b' = scroll_y b"
    "scroll_listener b' = scroll_listener b" "clock b' = clock b" "timers b' = timers b"
  using assms by (auto simp: ls_set_item_Inr_iff)

lemma ls_get_after_set:
  assumes "ls_set_item k v b = Inr b'"
  shows "ls_get_item k' b' = Inr (if k' = k then Some v else local_storage b k')"
  using assms by (auto simp: ls_set_item_Inr_iff ls_get_item_def)

section \<open>Timers\<close>

lemma due_callbacks_Nil [simp]: "due_callbacks now [] = []"
  by (simp add: due_callbacks_def)

lemma set_due_callbacks:
  "set (due_callbacks now ts) = snd ` {x \<in> set ts. fst x \<le> now}"
  by (auto simp: due_callbacks_def split_beta image_iff)

lemma advance_clock_simps:
  "clock (snd (advance_clock d b)) = clock b + d"
  "timers (snd (advance_clock d b)) = filter (\<lambda>(t, _). \<not> t \<le> clock b + d) (timers b)"
  "fst (advance_clock d b) = due_callbacks (clock b + d) (timers b)"
  by (simp_all add: advance_clock_def Let_def)

lemma advance_clock_frame:
  "local_storage (snd (advance_clock d b)) = local_storage b"
  "storage_mode (snd (advance_clock d b)) = storage_mode b"
  "prefers_dark (snd (advance_clock d b)) = prefers_dark b"
  "root_classes (snd (advance_clock d b)) = root_classes b"
  "scroll_y (snd (advance_clock d b)) = scroll_y b"
  "scroll_listener (snd (advance_clock d b)) = scroll_listener b"
  by (simp_all add: advance_clock_def Let_def)

end
