(* ===== verification/Theme.thy ===== *)
theory Theme
  imports Browser
begin

text \<open>
  The theme controller of \<open>Home\<close> (\<open>src/app/page.js\<close>): the \<open>isDark\<close> state
  (line 787), the three theme effects run after the first render (lines 792-816) and
  the toggle buttons of \<open>Navbar\<close> (lines 53 and 65). Effects run in source order
  after a commit; a setter called in an effect queues a value that the next render
  applies; the \<open>[isDark]\<close> effect runs again only when \<open>isDark\<close> changed.
\<close>

section \<open>The effects\<close>

text \<open>The persisted value, line 807.\<close>

definition theme_value :: "bool \<Rightarrow> js_string" where
  "theme_value d = (if d then ''dark'' else ''light'')"

text \<open>Effect 1, lines 792-797: follow the system preference by queueing \<open>true\<close>.\<close>

definition system_theme_effect :: "'cb browser \<Rightarrow> bool option" where
  "system_theme_effect b = (if match_media_dark b then Some True else None)"

text \<open>
  Effect 2, lines 800-808: add or remove the \<open>dark\<close> class, then persist. The
  \<open>setItem\<close> call is not guarded: when it throws, the effect throws.
\<close>

definition apply_theme_effect :: "bool \<Rightarrow> 'cb browser \<Rightarrow> dom_error + 'cb browser" where
  "apply_theme_effect d b =
     ls_set_item ''theme'' (theme_value d)
       (if d then class_list_add ''dark'' b else class_list_remove ''dark'' b)"

text \<open>Effect 3, lines 811-816: read the saved theme and queue \<open>true\<close> for a saved
  \<open>'dark'\<close>, or for a missing value when the system prefers dark.\<close>

definition load_theme_effect :: "'cb browser \<Rightarrow> dom_error + bool option" where
  "load_theme_effect b =
     ok_bind (ls_get_item ''theme'' b) (\<lambda>saved.
       Inr (if saved = Some ''dark'' \<or> (js_falsy_str saved \<and> match_media_dark b)
            then Some True else None))"

text \<open>
  The theme effects of the first commit, which renders \<open>isDark = false\<close>: effects 1, 2
  and 3 in source order; the result is the queued update and the browser.
\<close>

definition theme_mount_effects :: "'cb browser \<Rightarrow> dom_error + bool option \<times> 'cb browser" where
  "theme_mount_effects b =
     (let q1 = system_theme_effect b in
      ok_bind (apply_theme_effect False b) (\<lambda>b2.
      ok_bind (load_theme_effect b2) (\<lambda>q3.
      Inr (queue_update q1 q3, b2))))"

text \<open>
  A re-render that applies a queued \<open>setIsDark\<close>: React keeps the old state when the
  new value is equal, and otherwise effect 2 runs for the new value.
\<close>

definition theme_commit :: "bool \<Rightarrow> bool option \<Rightarrow> 'cb browser \<Rightarrow> dom_error + bool \<times> 'cb browser" where
  "theme_commit cur q b =
     (let d = commit_value cur q in
      if d = cur then Inr (cur, b)
      else ok_bind (apply_theme_effect d b) (\<lambda>b'. Inr (d, b')))"

text \<open>The theme toggle buttons, lines 53 and 65: \<open>setIsDark(!isDark)\<close>.\<close>

definition toggle_theme :: "bool \<Rightarrow> 'cb browser \<Rightarrow> dom_error + bool \<times> 'cb browser" where
  "toggle_theme d b = theme_commit d (Some (\<not> d)) b"

text \<open>The theme part of mounting \<open>Home\<close>: the effects, then the re-render.\<close>

definition mount_theme :: "'cb browser \<Rightarrow> dom_error + bool \<times> 'cb browser" where
  "mount_theme b = ok_bind (theme_mount_effects b) (\<lambda>(q, b2). theme_commit False q b2)"

lemmas theme_defs [page_defs] =
  theme_value_def system_theme_effect_def apply_theme_effect_def load_theme_effect_def
  theme_mount_effects_def theme_commit_def toggle_theme_def mount_theme_def

section \<open>What the spec asks of the controller\<close>

text \<open>
  Section 4.1 of the spec: on load use the persisted preference, else the system
  preference; a toggle inverts the preference and persists it.
\<close>

definition spec_theme_on_load :: "js_string option \<Rightarrow> bool \<Rightarrow> bool" where
  "spec_theme_on_load saved os =
     (if saved = Some ''dark'' then True else if saved = Some ''light'' then False else os)"

text \<open>The document and the storage agree with a theme.\<close>

definition theme_synced :: "bool \<Rightarrow> 'cb browser \<Rightarrow> bool" where
  "theme_synced d b \<longleftrightarrow>
     (''dark'' \<in> root_classes b \<longleftrightarrow> d) \<and> local_storage b ''theme'' = Some (theme_value d)"

text \<open>The class list effect 2 leaves.\<close>

definition dark_classes :: "bool \<Rightarrow> js_string set \<Rightarrow> js_string set" where
  "dark_classes d cs = (if d then insert ''dark'' cs else cs - {''dark''})"

section \<open>Effect 2\<close>

lemma theme_value_inj [simp]: "theme_value d = theme_value e \<longleftrightarrow> d = e"
  by (simp add: theme_value_def)

lemma apply_theme_effect_ok:
  "storage_mode b = Storage_ok \<Longrightarrow>
   apply_theme_effect d b =
     Inr (b\<lparr>local_storage := (local_storage b)(''theme'' \<mapsto> theme_value d),
            root_classes := dark_classes d (root_classes b)\<rparr>)"
  by (simp add: apply_theme_effect_def ls_set_item_def class_list_add_def
      class_list_remove_def dark_classes_def)

lemma apply_theme_effect_fails:
  "storage_mode b \<noteq> Storage_ok \<Longrightarrow> \<exists>e. apply_theme_effect d b = Inl e"
  by (cases "storage_mode b")
    (simp_all add: apply_theme_effect_def ls_set_item_def class_list_add_def
      class_list_remove_def)

lemma apply_theme_effect_Inr:
  assumes "apply_theme_effect d b = Inr b'"
  shows "storage_mode b = Storage_ok"
    and "b' = b\<lparr>local_storage := (local_storage b)(''theme'' \<mapsto> theme_value d),
                 root_classes := dark_classes d (root_classes b)\<rparr>"
proof -
  show ok: "storage_mode b = Storage_ok"
    using assms apply_theme_effect_fails by (metis Inl_Inr_False)
  show "b' = b\<lparr>local_storage := (local_storage b)(''theme'' \<mapsto> theme_value d),
                 root_classes := dark_classes d (root_classes b)\<rparr>"
    using assms by (simp add: apply_theme_effect_ok [OF ok])
qed

lemma apply_theme_effect_synced:
  "apply_theme_effect d b = Inr b' \<Longrightarrow> theme_synced d b'"
  by (drule apply_theme_effect_Inr(2)) (simp add: theme_synced_def dark_classes_def)

text \<open>
  Effect 3 reads what effect 2 has just written: after effect 2 ran for \<open>false\<close> the
  saved value is \<open>'light'\<close>, so effect 3 never queues an update.
\<close>

lemma load_after_light_effect:
  assumes "apply_theme_effect False b = Inr b2"
  shows "load_theme_effect b2 = Inr None"
proof -
  from assms have "storage_mode b = Storage_ok"
    by (rule apply_theme_effect_Inr(1))
  with apply_theme_effect_Inr(2) [OF assms] show ?thesis
    by (simp add: load_theme_effect_def ls_get_item_def theme_value_def)
qed

lemma dark_classes_twice:
  "dark_classes d (dark_classes e cs) = dark_classes d cs"
  by (auto simp: dark_classes_def)

section \<open>Mounting\<close>

lemma theme_mount_effects_ok:
  assumes "storage_mode b = Storage_ok"
  shows "theme_mount_effects b =
     Inr (system_theme_effect b,
          b\<lparr>local_storage := (local_storage b)(''theme'' \<mapsto> theme_value False),
             root_classes := dark_classes False (root_classes b)\<rparr>)"
proof -
  let ?b2 = "b\<lparr>local_storage := (local_storage b)(''theme'' \<mapsto> theme_value False),
                root_classes := dark_classes False (root_classes b)\<rparr>"
  have e2: "apply_theme_effect False b = Inr ?b2"
    using assms by (rule apply_theme_effect_ok)
  then have "load_theme_effect ?b2 = Inr None"
    by (rule load_after_light_effect)
  with e2 show ?thesis
    by (simp add: theme_mount_effects_def)
qed

lemma theme_commit_same [simp]: "theme_commit d (Some d) b = Inr (d, b)"
  by (simp add: theme_commit_def)

lemma theme_commit_ok:
  "storage_mode b = Storage_ok \<Longrightarrow> d \<noteq> cur \<Longrightarrow>
   theme_commit cur (Some d) b =
     Inr (d, b\<lparr>local_storage := (local_storage b)(''theme'' \<mapsto> theme_value d),
               root_classes := dark_classes d (root_classes b)\<rparr>)"
  by (simp add: theme_commit_def apply_theme_effect_ok Let_def)

text \<open>C2: whatever the storage holds, mounting ends in the system preference, and the
  saved value is overwritten with it. The saved preference is never read back: effect 2
  overwrites it with \<open>'light'\<close> before effect 3 reads it.\<close>

theorem mount_theme_follows_system:
  assumes "storage_mode b = Storage_ok"
  shows "mount_theme b =
     Inr (prefers_dark b,
          b\<lparr>local_storage := (local_storage b)(''theme'' \<mapsto> theme_value (prefers_dark b)),
             root_classes := dark_classes (prefers_dark b) (root_classes b)\<rparr>)"
proof (cases "prefers_dark b")
  case True
  with assms show ?thesis
    by (simp add: mount_theme_def theme_mount_effects_ok system_theme_effect_def
        match_media_dark_def theme_commit_ok dark_classes_twice)
next
  case False
  with assms show ?thesis
    by (simp add: mount_theme_def theme_mount_effects_ok system_theme_effect_def
        match_media_dark_def theme_commit_def)
qed

theorem mount_theme_follows_system_witness:
  "mount_theme (\<lparr>local_storage = [''theme'' \<mapsto> ''dark''], storage_mode = Storage_ok,
      prefers_dark = False, root_classes = {}, scroll_y = 0, scroll_listener = False,
      clock = 0, timers = []\<rparr> :: unit browser) =
   Inr (False, \<lparr>local_storage = [''theme'' \<mapsto> ''light''], storage_mode = Storage_ok,
      prefers_dark = False, root_classes = {}, scroll_y = 0, scroll_listener = False,
      clock = 0, timers = []\<rparr>)"
  using mount_theme_follows_system [of "\<lparr>local_storage = [''theme'' \<mapsto> ''dark''],
      storage_mode = Storage_ok, prefers_dark = False, root_classes = {}, scroll_y = 0,
      scroll_listener = False, clock = 0, timers = []\<rparr> :: unit browser"]
  by (simp add: theme_value_def dark_classes_def)

text \<open>C4: a storage that refuses writes makes the mount throw (there is no
  \<open>try\<close> around \<open>setItem\<close>), with the exception the storage raises.\<close>

theorem mount_theme_storage_error:
  assumes "storage_mode b \<noteq> Storage_ok"
  shows "mount_theme b =
     Inl (if storage_mode b = Storage_full then Quota_exceeded_error else Security_error)"
  using assms
  by (cases "storage_mode b")
    (simp_all add: mount_theme_def theme_mount_effects_def apply_theme_effect_def
      ls_set_item_def class_list_add_def class_list_remove_def)

theorem mount_theme_storage_error_witness:
  "mount_theme (\<lparr>local_storage = Map.empty, storage_mode = Storage_full,
      prefers_dark = True, root_classes = {}, scroll_y = 0, scroll_listener = False,
      clock = 0, timers = []\<rparr> :: unit browser) = Inl Quota_exceeded_error"
  using mount_theme_storage_error [of "\<lparr>local_storage = Map.empty,
      storage_mode = Storage_full, prefers_dark = True, root_classes = {}, scroll_y = 0,
      scroll_listener = False, clock = 0, timers = []\<rparr> :: unit browser"]
  by simp

section \<open>Toggling\<close>

lemma toggle_theme_ok:
  "storage_mode b = Storage_ok \<Longrightarrow>
   toggle_theme d b =
     Inr (\<not> d, b\<lparr>local_storage := (local_storage b)(''theme'' \<mapsto> theme_value (\<not> d)),
                 root_classes := dark_classes (\<not> d) (root_classes b)\<rparr>)"
  by (simp add: toggle_theme_def theme_commit_ok)

lemma toggle_theme_fails:
  assumes "storage_mode b \<noteq> Storage_ok"
  shows "\<exists>e. toggle_theme d b = Inl e"
proof -
  obtain e where "apply_theme_effect (\<not> d) b = Inl e"
    using apply_theme_effect_fails [OF assms] by blast
  then show ?thesis
    by (simp add: toggle_theme_def theme_commit_def Let_def)
qed

lemma synced_dark_classes:
  "theme_synced d b \<Longrightarrow> dark_classes d (root_classes b) = root_classes b"
  by (auto simp: theme_synced_def dark_classes_def)

text \<open>C5: from a state where document and storage agree with the theme, a toggle
  inverts the theme, and the stored value and the document class follow the new theme;
  a second toggle gives back the same theme, the same storage and the same document.\<close>

theorem toggle_theme_twice:
  assumes "storage_mode b = Storage_ok" and "theme_synced d b"
  shows "\<exists>b1. toggle_theme d b = Inr (\<not> d, b1) \<and> theme_synced (\<not> d) b1 \<and>
              toggle_theme (\<not> d) b1 = Inr (d, b)"
proof -
  let ?b1 = "b\<lparr>local_storage := (local_storage b)(''theme'' \<mapsto> theme_value (\<not> d)),
               root_classes := dark_classes (\<not> d) (root_classes b)\<rparr>"
  have first: "toggle_theme d b = Inr (\<not> d, ?b1)"
    using assms(1) by (rule toggle_theme_ok)
  have synced: "theme_synced (\<not> d) ?b1"
    by (simp add: theme_synced_def dark_classes_def)
  have "local_storage b ''theme'' = Some (theme_value d)"
    using assms(2) by (simp add: theme_synced_def)
  then have "(local_storage b)(''theme'' \<mapsto> theme_value d) = local_storage b"
    by (simp add: fun_upd_idem)
  with assms have "toggle_theme (\<not> d) ?b1 = Inr (d, b)"
    by (simp add: toggle_theme_ok dark_classes_twice synced_dark_classes)
  with first synced show ?thesis
    by blast
qed

theorem toggle_theme_twice_witness:
  "\<exists>b1. toggle_theme True (\<lparr>local_storage = [''theme'' \<mapsto> ''dark''],
      storage_mode = Storage_ok, prefers_dark = False, root_classes = {''dark''},
      scroll_y = 0, scroll_listener = True, clock = 0, timers = []\<rparr> :: unit browser) =
      Inr (\<not> True, b1) \<and> theme_synced (\<not> True) b1 \<and>
    toggle_theme (\<not> True) b1 = Inr (True, \<lparr>local_storage = [''theme'' \<mapsto> ''dark''],
      storage_mode = Storage_ok, prefers_dark = False, root_classes = {''dark''},
      scroll_y = 0, scroll_listener = True, clock = 0, timers = []\<rparr>)"
  by (rule toggle_theme_twice) (simp_all add: theme_synced_def theme_value_def)

end
