(* ===== verification/Scroll.thy ===== *)
theory Scroll
  imports Browser
begin

text \<open>
  The scroll observer of \<open>Home\<close> (\<open>src/app/page.js\<close>, lines 788 and 818-825): the
  \<open>isScrolled\<close> flag, the handler that sets it from \<open>window.scrollY\<close>, and the effect
  that registers the handler on mount and removes it on unmount.
\<close>

definition scroll_threshold :: px where
  "scroll_threshold = 50"

text \<open>\<open>handleScroll\<close>, lines 820-822: the flag is \<open>window.scrollY > 50\<close>.\<close>

definition handle_scroll :: "'cb browser \<Rightarrow> bool" where
  "handle_scroll b = (scroll_y b > scroll_threshold)"

text \<open>The effect, lines 819-825: subscribe on mount; its cleanup unsubscribes.\<close>

definition scroll_effect :: "'cb browser \<Rightarrow> 'cb browser" where
  "scroll_effect b = add_scroll_listener b"

definition scroll_effect_cleanup :: "'cb browser \<Rightarrow> 'cb browser" where
  "scroll_effect_cleanup b = remove_scroll_listener b"

text \<open>
  A scroll of the window to offset \<open>y\<close>: the browser updates \<open>scrollY\<close> and, if the
  handler is registered, calls it; the result is the new flag, or \<open>None\<close> when no
  handler ran.
\<close>

definition window_scroll :: "px \<Rightarrow> 'cb browser \<Rightarrow> bool option \<times> 'cb browser" where
  "window_scroll y b =
     (let b1 = window_scroll_to y b
      in (if scroll_listener b1 then Some (handle_scroll b1) else None, b1))"

lemmas scroll_defs [page_defs] =
  scroll_threshold_def handle_scroll_def scroll_effect_def scroll_effect_cleanup_def
  window_scroll_def

lemma window_scroll_eq:
  "window_scroll y b =
     (if scroll_listener b then Some (50 < y) else None, b\<lparr>scroll_y := y\<rparr>)"
  by (simp add: window_scroll_def window_scroll_to_def handle_scroll_def scroll_threshold_def)

end
