(* ===== verification/Navbar.thy ===== *)
theory Navbar
  imports Prelude
begin

text \<open>
  The navigation bar, \<open>Navbar\<close> in \<open>src/app/page.js\<close> (lines 11-107), with the
  \<open>mobileMenuOpen\<close> state it receives from \<open>Home\<close> (line 789): its links, the
  menu button, the links of the open mobile menu, and what the bar shows for a given
  theme, scroll flag and menu state. The theme buttons are in \<open>Theme\<close>.
\<close>

record nav_link =
  nav_name :: js_string
  nav_href :: js_string

definition nav_links :: "nav_link list" where
  "nav_links = [
     \<lparr>nav_name = ''About'', nav_href = ''#about''\<rparr>,
     \<lparr>nav_name = ''Projects'', nav_href = ''#projects''\<rparr>,
     \<lparr>nav_name = ''Skills'', nav_href = ''#skills''\<rparr>,
     \<lparr>nav_name = ''Contact'', nav_href = ''#contact''\<rparr>]"

text \<open>The menu button, line 72, and a link of the open mobile menu, line 95.\<close>

definition toggle_mobile_menu :: "bool \<Rightarrow> bool" where
  "toggle_mobile_menu m = (\<not> m)"

definition mobile_link_click :: "nat \<Rightarrow> bool \<Rightarrow> bool" where
  "mobile_link_click i m = (if m \<and> i < length nav_links then False else m)"

datatype bar_style = Glass | Transparent
datatype icon = Sun_icon | Moon_icon | Close_icon | Menu_icon

record navbar_view =
  bar_style :: bar_style
  desktop_links :: "nav_link list"
  theme_icon :: icon
  menu_icon :: icon
  mobile_links :: "nav_link list"

text \<open>What the bar renders, lines 19-106.\<close>

definition navbar :: "bool \<Rightarrow> bool \<Rightarrow> bool \<Rightarrow> navbar_view" where
  "navbar is_dark is_scrolled menu_open =
     \<lparr>bar_style = (if is_scrolled then Glass else Transparent),
      desktop_links = nav_links,
      theme_icon = (if is_dark then Sun_icon else Moon_icon),
      menu_icon = (if menu_open then Close_icon else Menu_icon),
      mobile_links = (if menu_open then nav_links else [])\<rparr>"

lemmas navbar_defs [page_defs] = toggle_mobile_menu_def mobile_link_click_def navbar_def

lemma length_nav_links [simp]: "length nav_links = 4"
  by (simp add: nav_links_def)

end
