(* ===== verification/Projects.thy ===== *)
theory Projects
  imports Prelude
begin

text \<open>
  The project showcase, \<open>Projects\<close> in \<open>src/app/page.js\<close> (lines 327-470): the static
  list of case studies, the \<open>expandedProject\<close> state (one project id or \<open>null\<close>),
  the expand/collapse button of each card and what each card renders.
\<close>

section \<open>Data\<close>

record project =
  project_id :: nat
  title :: js_string
  category :: js_string
  image :: js_string
  problem :: js_string
  research :: js_string
  solution :: js_string
  tools :: "js_string list"
  outcome :: js_string

definition projects :: "project list" where
  "projects = [
    \<lparr>project_id = 1, title = ''Sales Analytics Dashboard'',
     category = ''Data Visualization'',
     image = ''https://images.unsplash.com/photo-1551288049-bebda4e38f71?w=800&h=400&fit=crop'',
     problem = ''Sales teams were struggling to visualize their performance data, leading to poor decision-making and missed targets.'',
     research = ''Conducted user interviews with 15+ sales representatives, analyzed current workflows, and studied competitor dashboards.'',
     solution = ''Designed an intuitive dashboard with real-time metrics, customizable widgets, and AI-powered insights for analysis.'',
     tools = [''Figma'', ''Power BI'', ''SQL'', ''React''],
     outcome = ''Improved sales team productivity by 40% and reduced time spent on manual reporting by 60%.''\<rparr>,
    \<lparr>project_id = 2, title = ''Hospital Queue Optimization System'',
     category = ''Healthcare App'',
     image = ''https://images.unsplash.com/photo-1519494026892-80bbd2d6fd0d?w=800&h=400&fit=crop'',
     problem = ''Patients faced long wait times and hospitals struggled with inefficient patient flow management.'',
     research = ''Shadowed hospital staff for 2 weeks, surveyed 200+ patients, and analyzed peak hour patterns.'',
     solution = ''Created a smart queue management system with real-time wait time predictions, appointment scheduling, and SMS notifications.'',
     tools = [''Figma'', ''UX Research'', ''Wireframing'', ''Prototyping''],
     outcome = ''Reduced average patient wait time by 35% and improved patient satisfaction scores by 50%.''\<rparr>,
    \<lparr>project_id = 3, title = ''E-commerce App Redesign'',
     category = ''Mobile Design'',
     image = ''https://images.unsplash.com/photo-1556742049-0cfed4f6a45d?w=800&h=400&fit=crop'',
     problem = ''Low conversion rates and high cart abandonment due to complex navigation and outdated UI.'',
     research = ''Performed heuristic evaluation, A/B testing, and user journey mapping to identify pain points.'',
     solution = ''Redesigned the entire app with modern UI, simplified checkout process, and personalized product recommendations.'',
     tools = [''Figma'', ''User Testing'', ''Wireframing'', ''Prototyping''],
     outcome = ''Increased conversion rate by 25% and reduced cart abandonment by 40%.''\<rparr>]"

section \<open>State and the button\<close>

text \<open>\<open>expandedProject\<close>: \<open>null\<close> or the id of the expanded card (line 364).\<close>

type_synonym expanded = "nat option"

text \<open>The button's handler, line 454.\<close>

definition toggle_project :: "expanded \<Rightarrow> nat \<Rightarrow> expanded" where
  "toggle_project e pid = (if e = Some pid then None else Some pid)"

text \<open>
  A click on the button of the \<open>i\<close>-th rendered card; only the cards of
  \<open>projects\<close> are rendered, so a click elsewhere changes nothing.
\<close>

definition click_project_button :: "nat \<Rightarrow> expanded \<Rightarrow> expanded" where
  "click_project_button i e =
     (if i < length projects then toggle_project e (project_id (projects ! i)) else e)"

section \<open>Rendering\<close>

datatype card_body =
    Case_study js_string js_string js_string "js_string list" js_string
      \<comment> \<open>problem, research, solution, tools, outcome (lines 412-446)\<close>
  | Summary js_string \<comment> \<open>the clamped problem statement (line 448)\<close>

record card_view =
  card_title :: js_string
  card_category :: js_string
  card_image :: js_string
  card_body :: card_body
  button_label :: js_string
  chevron_rotated :: bool

definition is_expanded :: "expanded \<Rightarrow> project \<Rightarrow> bool" where
  "is_expanded e p \<longleftrightarrow> e = Some (project_id p)"

definition project_card :: "expanded \<Rightarrow> project \<Rightarrow> card_view" where
  "project_card e p =
     \<lparr>card_title = title p, card_category = category p, card_image = image p,
      card_body = (if is_expanded e p
                   then Case_study (problem p) (research p) (solution p) (tools p) (outcome p)
                   else Summary (problem p)),
      button_label = (if is_expanded e p then ''Show Less'' else ''View Case Study''),
      chevron_rotated = is_expanded e p\<rparr>"

definition projects_view :: "expanded \<Rightarrow> card_view list" where
  "projects_view e = map (project_card e) projects"

fun is_case_study :: "card_body \<Rightarrow> bool" where
  "is_case_study (Case_study _ _ _ _ _) = True"
| "is_case_study (Summary _) = False"

text \<open>The positions of the cards that show their case study.\<close>

definition expanded_cards :: "card_view list \<Rightarrow> nat list" where
  "expanded_cards cs = filter (\<lambda>i. is_case_study (card_body (cs ! i))) [0..<length cs]"

text \<open>Project ids the state may hold: none, or one of the rendered projects.\<close>

definition expanded_valid :: "expanded \<Rightarrow> bool" where
  "expanded_valid e \<longleftrightarrow> (\<forall>pid. e = Some pid \<longrightarrow> pid \<in> project_id ` set projects)"

lemmas projects_view_defs [page_defs] =
  toggle_project_def click_project_button_def is_expanded_def project_card_def projects_view_def

section \<open>Facts about the data\<close>

lemma length_projects [simp]: "length projects = 3"
  by (simp add: projects_def)

lemma project_ids: "map project_id projects = [1, 2, 3]"
  by (simp add: projects_def)

lemma distinct_project_ids: "distinct (map project_id projects)"
  by (simp add: project_ids)

lemma project_id_nth: "i < length projects \<Longrightarrow> project_id (projects ! i) = Suc i"
proof -
  assume "i < length projects"
  then have "map project_id projects ! i = project_id (projects ! i)"
    by simp
  moreover have "i < 3" using \<open>i < length projects\<close> by simp
  then have "[1, 2, 3 :: nat] ! i = Suc i"
    by (auto simp: less_Suc_eq numeral_3_eq_3)
  ultimately show ?thesis by (simp add: project_ids)
qed

lemma expanded_cards_projects_view:
  "expanded_cards (projects_view e) = filter (\<lambda>i. e = Some (Suc i)) [0..<length projects]"
  by (auto simp: expanded_cards_def projects_view_def project_card_def is_expanded_def
      project_id_nth split: if_splits intro!: filter_cong)

lemma filter_Suc_upt:
  "filter (\<lambda>i. e = Some (Suc i)) [0..<n] =
     (case e of None \<Rightarrow> [] | Some pid \<Rightarrow> if 0 < pid \<and> pid \<le> n then [pid - 1] else [])"
  by (induction n) (auto split: option.splits)

text \<open>Which cards show their case study, for any state.\<close>

lemma expanded_cards_eq:
  "expanded_cards (projects_view e) =
     (case e of None \<Rightarrow> []
      | Some pid \<Rightarrow> if 0 < pid \<and> pid \<le> length projects then [pid - 1] else [])"
  by (simp only: expanded_cards_projects_view filter_Suc_upt)

lemma click_project_button_nth:
  "i < length projects \<Longrightarrow>
   click_project_button i e = (if e = Some (Suc i) then None else Some (Suc i))"
  by (simp add: click_project_button_def toggle_project_def project_id_nth)

section \<open>Properties of the showcase\<close>

text \<open>C6: whatever the state, at most one card shows its case study.\<close>

theorem at_most_one_case_study: "length (expanded_cards (projects_view e)) \<le> 1"
  by (simp add: expanded_cards_eq split: option.splits)

text \<open>C7: expanding card \<open>i\<close> and then a different card \<open>j\<close> leaves exactly card \<open>j\<close>
  expanded, whatever was expanded before.\<close>

theorem expand_then_other:
  assumes "i < length projects" and "j < length projects" and "i \<noteq> j"
  shows "expanded_cards (projects_view (click_project_button j (click_project_button i e))) = [j]"
  using assms by (simp add: click_project_button_nth expanded_cards_eq)

theorem expand_then_other_witness:
  "expanded_cards (projects_view (click_project_button 2 (click_project_button 0 None))) = [2]"
  by (rule expand_then_other) simp_all

text \<open>C8: from a state in which card \<open>i\<close> is not expanded, a click on its button shows
  exactly card \<open>i\<close> as a case study, and a second click on it leaves no card expanded.\<close>

theorem expand_then_collapse:
  assumes "i < length projects" and "e \<noteq> Some (project_id (projects ! i))"
  shows "expanded_cards (projects_view (click_project_button i e)) = [i] \<and>
         click_project_button i (click_project_button i e) = None"
  using assms by (simp add: click_project_button_nth project_id_nth expanded_cards_eq)

theorem expand_then_collapse_witness:
  "expanded_cards (projects_view (click_project_button 0 (Some 2))) = [0] \<and>
   click_project_button 0 (click_project_button 0 (Some 2)) = None"
  by (rule expand_then_collapse) (simp_all add: projects_def)

text \<open>The contract of section 4.3 of the spec on the set of expanded cards: a toggle
  clears the selection when the card is the expanded one and otherwise selects it alone.\<close>

definition spec_toggle_card :: "nat \<Rightarrow> nat set \<Rightarrow> nat set" where
  "spec_toggle_card i S = (if i \<in> S then {} else {i})"

text \<open>C9: the button refines that contract: the set of cards showing their case study
  after a click is the contract's toggle of the set before; a click off the cards
  changes nothing.\<close>

theorem click_project_refines:
  "set (expanded_cards (projects_view (click_project_button i e))) =
     (if i < length projects
      then spec_toggle_card i (set (expanded_cards (projects_view e)))
      else set (expanded_cards (projects_view e)))"
proof (cases "i < length projects")
  case True
  then show ?thesis
    by (auto simp: click_project_button_nth expanded_cards_eq spec_toggle_card_def
        split: option.splits)
next
  case False
  then show ?thesis by (simp add: click_project_button_def)
qed

lemma click_project_button_valid:
  "expanded_valid e \<Longrightarrow> expanded_valid (click_project_button i e)"
  by (auto simp: expanded_valid_def click_project_button_def toggle_project_def)

lemma expanded_valid_None [simp]: "expanded_valid None"
  by (simp add: expanded_valid_def)

end
