(* ===== verification/JsString.thy ===== *)
theory JsString
  imports Prelude
begin

text \<open>
  The two JavaScript string built-ins the page relies on: \<open>String.prototype.replace\<close>
  with a string pattern (line 698 of \<open>src/app/page.js\<close>), which replaces the first
  occurrence only, and the conversion of a small integer to its decimal string in a
  template literal (line 541).
  The replacement strings of the page contain no \<open>$\<close>, so the replacement is inserted
  literally.
\<close>

section \<open>First-occurrence replacement\<close>

text \<open>The scanner: at each position, test whether the pattern starts there.\<close>

fun js_replace_first :: "js_string \<Rightarrow> js_string \<Rightarrow> js_string \<Rightarrow> js_string" where
  "js_replace_first pat rep [] = (if pat = [] then rep else [])"
| "js_replace_first pat rep (c # cs) =
     (if take (length pat) (c # cs) = pat then rep @ drop (length pat) (c # cs)
      else c # js_replace_first pat rep cs)"

text \<open>
  The reference, as ECMA-262 states \<open>replace\<close> for a string pattern: the position is
  \<open>StringIndexOf(s, pat, 0)\<close>, the least position at which \<open>pat\<close> occurs, and the
  result is the text before it, the replacement, and the text after the match.
\<close>

definition js_index_of :: "js_string \<Rightarrow> js_string \<Rightarrow> nat option" where
  "js_index_of pat s = find (\<lambda>i. take (length pat) (drop i s) = pat) [0..<Suc (length s)]"

definition js_replace_ref :: "js_string \<Rightarrow> js_string \<Rightarrow> js_string \<Rightarrow> js_string" where
  "js_replace_ref pat rep s =
     (case js_index_of pat s of
        None \<Rightarrow> s
      | Some i \<Rightarrow> take i s @ rep @ drop (i + length pat) s)"

lemma find_map_Suc:
  "find P (map Suc xs) = map_option Suc (find (\<lambda>i. P (Suc i)) xs)"
  by (induction xs) auto

lemma js_index_of_Nil: "js_index_of pat [] = (if pat = [] then Some 0 else None)"
  by (simp add: js_index_of_def)

lemma js_index_of_Cons:
  "js_index_of pat (c # cs) =
     (if take (length pat) (c # cs) = pat then Some 0 else map_option Suc (js_index_of pat cs))"
proof -
  have "[0..<Suc (length (c # cs))] = 0 # map Suc [0..<Suc (length cs)]"
    by (simp add: map_Suc_upt upt_conv_Cons del: upt_Suc)
  then show ?thesis
    by (simp add: js_index_of_def find_map_Suc del: upt_Suc)
qed

text \<open>The scanner computes the reference.\<close>

lemma js_replace_first_eq_ref: "js_replace_first pat rep s = js_replace_ref pat rep s"
proof (induction s)
  case Nil
  then show ?case by (simp add: js_replace_ref_def js_index_of_Nil)
next
  case (Cons c cs)
  then show ?case
    by (auto simp: js_replace_ref_def js_index_of_Cons split: option.splits)
qed

section \<open>Decimal strings\<close>

text \<open>\<open>Number.prototype.toString()\<close> on a non-negative integer: its decimal digits.\<close>

fun nat_digits :: "nat \<Rightarrow> nat list" where
  "nat_digits n = (if n < 10 then [n] else nat_digits (n div 10) @ [n mod 10])"

declare nat_digits.simps [simp del]

definition digit_char :: "nat \<Rightarrow> char" where
  "digit_char d = char_of (48 + d)"

definition js_nat_to_string :: "nat \<Rightarrow> js_string" where
  "js_nat_to_string n = map digit_char (nat_digits n)"

end
