(* ===== verification/Contact.thy ===== *)
theory Contact
  imports Browser JsString
begin

text \<open>
  The contact section, \<open>Contact\<close> in \<open>src/app/page.js\<close> (lines 559-722): the draft
  \<open>formData\<close>, the \<open>submitted\<close> flag, the field handlers, \<open>handleSubmit\<close> with its
  3-second reset timer, the choice between the form and the success message, and the
  social links with their displayed labels. The browser's constraint validation
  (\<open>required\<close> fields and the \<open>type="email"\<close> field) decides whether a submit reaches
  \<open>handleSubmit\<close>; it is modelled from the HTML standard.
\<close>

section \<open>State\<close>

record contact_form =
  name :: js_string
  email :: js_string
  message :: js_string

record contact_state =
  form_data :: contact_form
  submitted :: bool

text \<open>Initial and cleared draft, lines 560 and 568.\<close>

definition empty_form :: contact_form where
  "empty_form = \<lparr>name = [], email = [], message = []\<rparr>"

definition contact_init :: contact_state where
  "contact_init = \<lparr>form_data = empty_form, submitted = False\<rparr>"

section \<open>Handlers\<close>

datatype form_field = Name_field | Email_field | Message_field

text \<open>The \<open>onChange\<close> handlers of the three inputs, lines 625, 637 and 649.\<close>

fun handle_change :: "form_field \<Rightarrow> js_string \<Rightarrow> contact_form \<Rightarrow> contact_form" where
  "handle_change Name_field v f = f\<lparr>name := v\<rparr>"
| "handle_change Email_field v f = f\<lparr>email := v\<rparr>"
| "handle_change Message_field v f = f\<lparr>message := v\<rparr>"

definition submit_reset_delay :: ms where
  "submit_reset_delay = 3000"

text \<open>
  \<open>handleSubmit\<close>, lines 563-569: mark the form submitted, schedule the reset callback
  \<open>cb\<close> after 3000 ms and clear the draft. Nothing is sent anywhere.
\<close>

definition handle_submit :: "'cb \<Rightarrow> contact_state \<Rightarrow> 'cb browser \<Rightarrow> contact_state \<times> 'cb browser" where
  "handle_submit cb s b =
     (let s1 = s\<lparr>submitted := True\<rparr>;
          b1 = set_timeout cb submit_reset_delay b
      in (s1\<lparr>form_data := empty_form\<rparr>, b1))"

text \<open>The timer callback of line 567.\<close>

definition reset_submitted :: "contact_state \<Rightarrow> contact_state" where
  "reset_submitted s = s\<lparr>submitted := False\<rparr>"

section \<open>Constraint validation (HTML standard)\<close>

definition is_ascii_alnum :: "char \<Rightarrow> bool" where
  "is_ascii_alnum c =
     (let k = of_char c :: nat in (48 \<le> k \<and> k \<le> 57) \<or> (65 \<le> k \<and> k \<le> 90) \<or> (97 \<le> k \<and> k \<le> 122))"

definition email_local_char :: "char \<Rightarrow> bool" where
  "email_local_char c =
     (is_ascii_alnum c \<or> c \<in> set ''.!#$%&*+/=?^_{|}~-'' \<or> c = CHR 0x27 \<or> c = CHR 0x60)"

fun split_on :: "char \<Rightarrow> js_string \<Rightarrow> js_string list" where
  "split_on d [] = [[]]"
| "split_on d (c # cs) =
     (if c = d then [] # split_on d cs
      else (case split_on d cs of [] \<Rightarrow> [[c]] | w # ws \<Rightarrow> (c # w) # ws))"

definition email_label_ok :: "js_string \<Rightarrow> bool" where
  "email_label_ok l \<longleftrightarrow>
     l \<noteq> [] \<and> length l \<le> 63 \<and> is_ascii_alnum (hd l) \<and> is_ascii_alnum (last l) \<and>
     list_all (\<lambda>c. is_ascii_alnum c \<or> c = CHR ''-'') l"

text \<open>A valid e-mail address: local part, one \<open>@\<close>, dot-separated domain labels.\<close>

definition valid_email :: "js_string \<Rightarrow> bool" where
  "valid_email s =
     (case split_on (CHR ''@'') s of
        [l, d] \<Rightarrow> l \<noteq> [] \<and> list_all email_local_char l \<and> list_all email_label_ok (split_on (CHR ''.'') d)
      | _ \<Rightarrow> False)"

text \<open>The three fields are \<open>required\<close>; the second is \<open>type="email"\<close>.\<close>

definition form_valid :: "contact_form \<Rightarrow> bool" where
  "form_valid f \<longleftrightarrow> name f \<noteq> [] \<and> email f \<noteq> [] \<and> message f \<noteq> [] \<and> valid_email (email f)"

section \<open>Rendering and events\<close>

text \<open>Lines 607-665: the success message while submitted, otherwise the form.\<close>

datatype contact_view = Success_message | Form_view js_string js_string js_string

definition contact_view :: "contact_state \<Rightarrow> contact_view" where
  "contact_view s =
     (if submitted s then Success_message
      else Form_view (name (form_data s)) (email (form_data s)) (message (form_data s)))"

text \<open>
  An edit of a field reaches its handler only while the form is rendered; a submit
  reaches \<open>handleSubmit\<close> only while the form is rendered and passes validation.
\<close>

definition dispatch_change :: "form_field \<Rightarrow> js_string \<Rightarrow> contact_state \<Rightarrow> contact_state" where
  "dispatch_change fld v s =
     (if submitted s then s else s\<lparr>form_data := handle_change fld v (form_data s)\<rparr>)"

definition dispatch_submit :: "'cb \<Rightarrow> contact_state \<Rightarrow> 'cb browser \<Rightarrow> contact_state \<times> 'cb browser" where
  "dispatch_submit cb s b =
     (if \<not> submitted s \<and> form_valid (form_data s) then handle_submit cb s b else (s, b))"

section \<open>Social links\<close>

record social_link =
  link_name :: js_string
  href :: js_string

definition social_links :: "social_link list" where
  "social_links = [
     \<lparr>link_name = ''Email'', href = ''mailto:nihalmishra@example.com''\<rparr>,
     \<lparr>link_name = ''LinkedIn'', href = ''https://linkedin.com/in/nihalmishra''\<rparr>,
     \<lparr>link_name = ''GitHub'', href = ''https://github.com/nihalmishra''\<rparr>]"

text \<open>The displayed address, line 698.\<close>

definition link_label :: "js_string \<Rightarrow> js_string" where
  "link_label h = js_replace_first ''https://'' [] (js_replace_first ''mailto:'' [] h)"

lemmas contact_defs [page_defs] =
  empty_form_def contact_init_def submit_reset_delay_def handle_submit_def
  reset_submitted_def contact_view_def dispatch_change_def dispatch_submit_def link_label_def

section \<open>Properties of the form\<close>

lemma handle_submit_eq:
  "handle_submit cb s b =
     (s\<lparr>submitted := True, form_data := empty_form\<rparr>,
      b\<lparr>timers := timers b @ [(clock b + 3000, cb)]\<rparr>)"
  by (simp add: handle_submit_def set_timeout_def submit_reset_delay_def)

text \<open>C10: a submit of a shown, valid form clears the draft, sets \<open>submitted\<close> and
  schedules the reset callback 3000 ms from now; nothing else changes.\<close>

theorem submit_clears_draft:
  assumes "\<not> submitted s" and "form_valid (form_data s)"
  shows "dispatch_submit cb s b =
     (\<lparr>form_data = empty_form, submitted = True\<rparr>,
      b\<lparr>timers := timers b @ [(clock b + 3000, cb)]\<rparr>)"
  using assms by (simp add: dispatch_submit_def handle_submit_eq)

theorem submit_clears_draft_witness:
  "dispatch_submit ()
     \<lparr>form_data = \<lparr>name = ''Ann'', email = ''ann@example.com'', message = ''Hello''\<rparr>,
      submitted = False\<rparr>
     (\<lparr>local_storage = Map.empty, storage_mode = Storage_ok, prefers_dark = False,
       root_classes = {}, scroll_y = 0, scroll_listener = True, clock = 500,
       timers = []\<rparr> :: unit browser) =
   (\<lparr>form_data = empty_form, submitted = True\<rparr>,
    \<lparr>local_storage = Map.empty, storage_mode = Storage_ok, prefers_dark = False,
     root_classes = {}, scroll_y = 0, scroll_listener = True, clock = 500,
     timers = [(3500, ())]\<rparr>)"
proof -
  let ?s = "\<lparr>form_data = \<lparr>name = ''Ann'', email = ''ann@example.com'', message = ''Hello''\<rparr>,
             submitted = False\<rparr>"
  let ?b = "\<lparr>local_storage = Map.empty, storage_mode = Storage_ok, prefers_dark = False,
             root_classes = {}, scroll_y = 0, scroll_listener = True, clock = 500,
             timers = []\<rparr> :: unit browser"
  have "dispatch_submit () ?s ?b =
          (\<lparr>form_data = empty_form, submitted = True\<rparr>,
           ?b\<lparr>timers := timers ?b @ [(clock ?b + 3000, ())]\<rparr>)"
    by (rule submit_clears_draft) (simp, code_simp)
  then show ?thesis
    by simp
qed

lemma split_on_absent: "d \<notin> set s \<Longrightarrow> split_on d s = [s]"
  by (induction s) auto

lemma valid_email_at: "valid_email e \<Longrightarrow> CHR ''@'' \<in> set e"
  by (cases "CHR ''@'' \<in> set e") (simp_all add: valid_email_def split_on_absent)

text \<open>C11: a submit with an empty name, an empty message or an address without
  \<open>@\<close> is stopped by the browser's validation of the \<open>required\<close> and \<open>type="email"\<close>
  inputs (lines 621-653) and never reaches \<open>handleSubmit\<close>: draft, flag and timers are
  unchanged.\<close>

theorem submit_rejected_invalid:
  assumes "name (form_data s) = [] \<or> message (form_data s) = [] \<or>
           CHR ''@'' \<notin> set (email (form_data s))"
  shows "dispatch_submit cb s b = (s, b)"
  using assms by (auto simp: dispatch_submit_def form_valid_def dest: valid_email_at)

theorem submit_rejected_invalid_witness:
  "dispatch_submit ()
     \<lparr>form_data = \<lparr>name = '''', email = ''ann@example.com'', message = ''Hello''\<rparr>, submitted = False\<rparr>
     (\<lparr>local_storage = Map.empty, storage_mode = Storage_ok, prefers_dark = False,
       root_classes = {}, scroll_y = 0, scroll_listener = True, clock = 0,
       timers = []\<rparr> :: unit browser) =
   (\<lparr>form_data = \<lparr>name = '''', email = ''ann@example.com'', message = ''Hello''\<rparr>, submitted = False\<rparr>,
    \<lparr>local_storage = Map.empty, storage_mode = Storage_ok, prefers_dark = False,
     root_classes = {}, scroll_y = 0, scroll_listener = True, clock = 0, timers = []\<rparr>)"
  by (rule submit_rejected_invalid) simp

lemma valid_email_nonempty: "valid_email e \<Longrightarrow> e \<noteq> []"
  by (cases e) (simp_all add: valid_email_def)

text \<open>C29: The \<open>required\<close> attributes (lines 623, 636 and 648) only reject an empty field:
  a name and a message made of spaces alone pass the browser's validation, so such a
  submission is accepted and the success message shown, exactly when both fields have at
  least one space and the address is valid.\<close>

theorem blank_fields_submitted:
  "dispatch_submit cb
     \<lparr>form_data = \<lparr>name = replicate k (CHR '' ''), email = e, message = replicate j (CHR '' '')\<rparr>,
      submitted = False\<rparr> b =
     (\<lparr>form_data = empty_form, submitted = True\<rparr>, b\<lparr>timers := timers b @ [(clock b + 3000, cb)]\<rparr>)
   \<longleftrightarrow> 0 < k \<and> 0 < j \<and> valid_email e"
  by (auto simp: dispatch_submit_def handle_submit_eq form_valid_def dest: valid_email_nonempty)

theorem blank_fields_submitted_witness:
  "fst (dispatch_submit ()
     \<lparr>form_data = \<lparr>name = ''   '', email = ''a@b.c'', message = '' ''\<rparr>, submitted = False\<rparr>
     (\<lparr>local_storage = Map.empty, storage_mode = Storage_ok, prefers_dark = False,
       root_classes = {}, scroll_y = 0, scroll_listener = True, clock = 0,
       timers = []\<rparr> :: unit browser)) = \<lparr>form_data = empty_form, submitted = True\<rparr>"
proof -
  have "valid_email ''a@b.c''" by code_simp
  then have "dispatch_submit ()
     \<lparr>form_data = \<lparr>name = replicate 3 (CHR '' ''), email = ''a@b.c'', message = replicate 1 (CHR '' '')\<rparr>,
      submitted = False\<rparr>
     (\<lparr>local_storage = Map.empty, storage_mode = Storage_ok, prefers_dark = False,
       root_classes = {}, scroll_y = 0, scroll_listener = True, clock = 0,
       timers = []\<rparr> :: unit browser) =
     (\<lparr>form_data = empty_form, submitted = True\<rparr>,
      (\<lparr>local_storage = Map.empty, storage_mode = Storage_ok, prefers_dark = False,
       root_classes = {}, scroll_y = 0, scroll_listener = True, clock = 0,
       timers = []\<rparr> :: unit browser)\<lparr>timers := [] @ [(0 + 3000, ())]\<rparr>)"
    using blank_fields_submitted [of "()" 3 "''a@b.c''" 1] by simp
  then show ?thesis by (simp add: numeral_3_eq_3)
qed

lemma contact_form_full_update:
  "(f :: contact_form)\<lparr>name := n, email := e, message := m\<rparr> = \<lparr>name = n, email = e, message = m\<rparr>"
  by (cases f) simp

lemma form_valid_required: "form_valid f \<Longrightarrow> name f \<noteq> [] \<and> email f \<noteq> [] \<and> message f \<noteq> []"
  by (simp add: form_valid_def)

lemma dispatch_change_submitted: "submitted s \<Longrightarrow> dispatch_change fld v s = s"
  by (simp add: dispatch_change_def)

lemma dispatch_change_keeps_submitted: "submitted (dispatch_change fld v s) = submitted s"
  by (simp add: dispatch_change_def)

end
