(* ===== verification/Page.thy ===== *)
theory Page
  imports Theme Scroll Navbar Projects Contact
begin

text \<open>
  The whole page, \<open>Home\<close> in \<open>src/app/page.js\<close> (lines 786-844), as a state machine
  driven by browser events. The state holds \<open>Home\<close>'s three hooks, the hooks of its
  children \<open>Projects\<close> and \<open>Contact\<close>, the phase of the React tree, a count of the
  mounts so far (each mount is a new component instance whose setters die with it) and
  the browser. A user event reaches a handler only while the page is mounted; a crash
  (an effect or handler that throws) unmounts the tree, as React does without an
  error boundary.
\<close>

section \<open>State and events\<close>

datatype timer_cb = Reset_submitted nat \<comment> \<open>the \<open>setSubmitted(false)\<close> of a given mount\<close>

datatype phase = Unmounted | Mounted | Crashed

record page =
  phase :: phase
  mount_count :: nat
  is_dark :: bool
  is_scrolled :: bool
  mobile_menu_open :: bool
  expanded_project :: expanded
  contact :: contact_state
  browser :: "timer_cb browser"

datatype event =
    Mount \<comment> \<open>the route renders \<open>Home\<close>\<close>
  | Unmount \<comment> \<open>client-side navigation away from it\<close>
  | Reload \<comment> \<open>a full page load on the same origin\<close>
  | Toggle_theme
  | Toggle_menu
  | Mobile_link nat
  | Scroll_to px
  | Project_button nat
  | Edit form_field js_string
  | Submit
  | Tick ms \<comment> \<open>time passes\<close>
  | System_scheme bool \<comment> \<open>the OS colour scheme changes\<close>

section \<open>Mounting and unmounting\<close>

text \<open>The state of a new instance of \<open>Home\<close> and its children: the initial values of
  lines 787-789, 364, 560 and 561.\<close>

definition home_initial :: "page \<Rightarrow> page" where
  "home_initial p =
     p\<lparr>phase := Mounted, mount_count := Suc (mount_count p), is_dark := False,
       is_scrolled := False, mobile_menu_open := False, expanded_project := None,
       contact := contact_init\<rparr>"

text \<open>A throw unmounts the tree; the cleanup of the scroll effect runs.\<close>

definition crash :: "page \<Rightarrow> page" where
  "crash p = p\<lparr>phase := Crashed, browser := scroll_effect_cleanup (browser p)\<rparr>"

text \<open>
  Mounting \<open>Home\<close>: the first commit renders the initial state; the effects run in
  source order (the three theme effects, then the scroll subscription); the queued
  \<open>setIsDark\<close> is applied by the next render, which re-runs the \<open>[isDark]\<close> effect
  when the value changed.
\<close>

definition mount_home :: "page \<Rightarrow> page" where
  "mount_home p =
     (let p0 = home_initial p in
      case theme_mount_effects (browser p0) of
        Inl e \<Rightarrow> crash p0
      | Inr (q, b2) \<Rightarrow>
          (case theme_commit False q (scroll_effect b2) of
             Inl e \<Rightarrow> crash (p0\<lparr>browser := scroll_effect b2\<rparr>)
           | Inr (d, b4) \<Rightarrow> p0\<lparr>is_dark := d, browser := b4\<rparr>))"

definition unmount_home :: "page \<Rightarrow> page" where
  "unmount_home p = p\<lparr>phase := Unmounted, browser := scroll_effect_cleanup (browser p)\<rparr>"

section \<open>Handlers\<close>

definition page_toggle_theme :: "page \<Rightarrow> page" where
  "page_toggle_theme p =
     (case toggle_theme (is_dark p) (browser p) of
        Inl e \<Rightarrow> crash p
      | Inr (d, b) \<Rightarrow> p\<lparr>is_dark := d, browser := b\<rparr>)"

definition page_scroll :: "px \<Rightarrow> page \<Rightarrow> page" where
  "page_scroll y p =
     (let (r, b) = window_scroll y (browser p)
      in p\<lparr>browser := b, is_scrolled := (case r of None \<Rightarrow> is_scrolled p | Some v \<Rightarrow> v)\<rparr>)"

definition page_submit :: "page \<Rightarrow> page" where
  "page_submit p =
     (let (c, b) = dispatch_submit (Reset_submitted (mount_count p)) (contact p) (browser p)
      in p\<lparr>contact := c, browser := b\<rparr>)"

text \<open>
  A timer callback: \<open>setSubmitted(false)\<close> of the instance that scheduled it. React
  ignores a setter of an instance that is no longer mounted.
\<close>

fun run_callback :: "timer_cb \<Rightarrow> page \<Rightarrow> page" where
  "run_callback (Reset_submitted k) p =
     (if phase p = Mounted \<and> k = mount_count p then p\<lparr>contact := reset_submitted (contact p)\<rparr>
      else p)"

definition page_tick :: "ms \<Rightarrow> page \<Rightarrow> page" where
  "page_tick d p =
     (let (cbs, b) = advance_clock d (browser p)
      in fold run_callback cbs (p\<lparr>browser := b\<rparr>))"

section \<open>The step function\<close>

definition when_mounted :: "(page \<Rightarrow> page) \<Rightarrow> page \<Rightarrow> page" where
  "when_mounted f p = (if phase p = Mounted then f p else p)"

fun page_step :: "event \<Rightarrow> page \<Rightarrow> page" where
  "page_step Mount p = (if phase p = Unmounted then mount_home p else p)"
| "page_step Unmount p = when_mounted unmount_home p"
| "page_step Reload p = mount_home (p\<lparr>phase := Unmounted, browser := fresh_document (browser p)\<rparr>)"
| "page_step Toggle_theme p = when_mounted page_toggle_theme p"
| "page_step Toggle_menu p =
     when_mounted (\<lambda>p. p\<lparr>mobile_menu_open := toggle_mobile_menu (mobile_menu_open p)\<rparr>) p"
| "page_step (Mobile_link i) p =
     when_mounted (\<lambda>p. p\<lparr>mobile_menu_open := mobile_link_click i (mobile_menu_open p)\<rparr>) p"
| "page_step (Scroll_to y) p = page_scroll y p"
| "page_step (Project_button i) p =
     when_mounted (\<lambda>p. p\<lparr>expanded_project := click_project_button i (expanded_project p)\<rparr>) p"
| "page_step (Edit fld v) p =
     when_mounted (\<lambda>p. p\<lparr>contact := dispatch_change fld v (contact p)\<rparr>) p"
| "page_step Submit p = when_mounted page_submit p"
| "page_step (Tick d) p = page_tick d p"
| "page_step (System_scheme v) p = p\<lparr>browser := (browser p)\<lparr>prefers_dark := v\<rparr>\<rparr>"

definition page_run :: "event list \<Rightarrow> page \<Rightarrow> page" where
  "page_run es p = fold page_step es p"

text \<open>A first load: a fresh document, nothing mounted yet.\<close>

definition initial_browser :: "timer_cb browser \<Rightarrow> bool" where
  "initial_browser b \<longleftrightarrow> root_classes b = {} \<and> \<not> scroll_listener b \<and> timers b = []"

definition init_page :: "timer_cb browser \<Rightarrow> page" where
  "init_page b =
     \<lparr>phase = Unmounted, mount_count = 0, is_dark = False, is_scrolled = False,
      mobile_menu_open = False, expanded_project = None, contact = contact_init, browser = b\<rparr>"

text \<open>The browser at a first visit, with a given storage content and system preference.\<close>

definition first_load_browser :: "(js_string \<rightharpoonup> js_string) \<Rightarrow> bool \<Rightarrow> timer_cb browser" where
  "first_load_browser m os =
     \<lparr>local_storage = m, storage_mode = Storage_ok, prefers_dark = os, root_classes = {},
      scroll_y = 0, scroll_listener = False, clock = 0, timers = []\<rparr>"

inductive reachable :: "page \<Rightarrow> bool" where
  start: "initial_browser b \<Longrightarrow> reachable (init_page b)"
| step: "reachable p \<Longrightarrow> reachable (page_step e p)"

lemma reachable_run: "reachable p \<Longrightarrow> reachable (page_run es p)"
  by (induction es arbitrary: p) (simp_all add: page_run_def reachable.step)

lemma reachable_first_load: "reachable (page_run es (init_page (first_load_browser m os)))"
  by (rule reachable_run, rule reachable.start) (simp add: initial_browser_def first_load_browser_def)

section \<open>Behaviour of the steps\<close>

lemma when_mounted_simps [simp]:
  "phase p = Mounted \<Longrightarrow> when_mounted f p = f p"
  "phase p \<noteq> Mounted \<Longrightarrow> when_mounted f p = p"
  by (simp_all add: when_mounted_def)

text \<open>The browser after a successful mount.\<close>

definition mounted_browser :: "timer_cb browser \<Rightarrow> timer_cb browser" where
  "mounted_browser b =
     b\<lparr>local_storage := (local_storage b)(''theme'' \<mapsto> theme_value (prefers_dark b)),
       root_classes := dark_classes (prefers_dark b) (root_classes b),
       scroll_listener := True\<rparr>"

lemma mount_home_ok:
  assumes "storage_mode (browser p) = Storage_ok"
  shows "mount_home p =
     (home_initial p)\<lparr>is_dark := prefers_dark (browser p),
                      browser := mounted_browser (browser p)\<rparr>"
proof (cases "prefers_dark (browser p)")
  case True
  with assms show ?thesis
    by (simp add: mount_home_def home_initial_def theme_mount_effects_ok
        system_theme_effect_def match_media_dark_def theme_commit_ok dark_classes_twice
        scroll_effect_def add_scroll_listener_def mounted_browser_def)
next
  case False
  with assms show ?thesis
    by (simp add: mount_home_def home_initial_def theme_mount_effects_ok
        system_theme_effect_def match_media_dark_def theme_commit_def
        scroll_effect_def add_scroll_listener_def mounted_browser_def)
qed

lemma mount_home_fails:
  assumes "storage_mode (browser p) \<noteq> Storage_ok"
  shows "mount_home p = crash (home_initial p)"
proof -
  obtain e where "apply_theme_effect False (browser (home_initial p)) = Inl e"
    using apply_theme_effect_fails assms by (fastforce simp: home_initial_def)
  then show ?thesis
    by (simp add: mount_home_def theme_mount_effects_def Let_def)
qed

lemma page_toggle_theme_ok:
  "storage_mode (browser p) = Storage_ok \<Longrightarrow>
   page_toggle_theme p =
     p\<lparr>is_dark := \<not> is_dark p,
       browser := (browser p)\<lparr>local_storage := (local_storage (browser p))(''theme'' \<mapsto> theme_value (\<not> is_dark p)),
                              root_classes := dark_classes (\<not> is_dark p) (root_classes (browser p))\<rparr>\<rparr>"
  by (simp add: page_toggle_theme_def toggle_theme_ok)

lemma page_toggle_theme_fails:
  assumes "storage_mode (browser p) \<noteq> Storage_ok"
  shows "page_toggle_theme p = crash p"
proof -
  obtain e where "toggle_theme (is_dark p) (browser p) = Inl e"
    using toggle_theme_fails [OF assms] by blast
  then show ?thesis by (simp add: page_toggle_theme_def)
qed

text \<open>Running the due callbacks: only the current instance's reset has an effect.\<close>

lemma run_callback_frame [simp]:
  "phase (run_callback c p) = phase p" "mount_count (run_callback c p) = mount_count p"
  by (cases c; simp)+

lemma fold_run_callback:
  "fold run_callback cbs p =
     (if phase p = Mounted \<and> Reset_submitted (mount_count p) \<in> set cbs
      then p\<lparr>contact := reset_submitted (contact p)\<rparr> else p)"
proof (induction cbs arbitrary: p)
  case Nil
  then show ?case by simp
next
  case (Cons c cbs)
  obtain k where c: "c = Reset_submitted k" by (cases c)
  then show ?case
    using Cons.IH by (auto simp: reset_submitted_def)
qed

lemma page_tick_eq:
  "page_tick d p =
     (let b = (browser p)\<lparr>clock := clock (browser p) + d,
                         timers := filter (\<lambda>(t, _). \<not> t \<le> clock (browser p) + d) (timers (browser p))\<rparr>
      in if phase p = Mounted \<and>
            (\<exists>t. (t, Reset_submitted (mount_count p)) \<in> set (timers (browser p)) \<and>
                 t \<le> clock (browser p) + d)
         then p\<lparr>browser := b, contact := reset_submitted (contact p)\<rparr>
         else p\<lparr>browser := b\<rparr>)"
  by (auto simp: page_tick_def advance_clock_def fold_run_callback set_due_callbacks Let_def
      image_iff)

section \<open>The page invariant\<close>

fun cb_mount :: "timer_cb \<Rightarrow> nat" where
  "cb_mount (Reset_submitted k) = k"

text \<open>The pending reset callbacks of the current instance.\<close>

definition own_timers :: "page \<Rightarrow> (ms \<times> timer_cb) list" where
  "own_timers p = filter (\<lambda>x. snd x = Reset_submitted (mount_count p)) (timers (browser p))"

definition timers_inv :: "page \<Rightarrow> bool" where
  "timers_inv p \<longleftrightarrow> (\<forall>x \<in> set (timers (browser p)). cb_mount (snd x) \<le> mount_count p)"

definition submit_timer_inv :: "page \<Rightarrow> bool" where
  "submit_timer_inv p \<longleftrightarrow>
     (submitted (contact p) \<longleftrightarrow> own_timers p \<noteq> []) \<and> length (own_timers p) \<le> 1 \<and>
     (\<forall>x \<in> set (own_timers p). clock (browser p) < fst x \<and> fst x \<le> clock (browser p) + 3000)"

definition page_inv :: "page \<Rightarrow> bool" where
  "page_inv p \<longleftrightarrow>
     (scroll_listener (browser p) \<longleftrightarrow> phase p = Mounted) \<and>
     (phase p = Mounted \<longrightarrow> theme_synced (is_dark p) (browser p) \<and> submit_timer_inv p) \<and>
     expanded_valid (expanded_project p) \<and> timers_inv p \<and>
     (storage_mode (browser p) = Storage_ok \<longrightarrow> phase p \<noteq> Crashed) \<and>
     (storage_mode (browser p) \<noteq> Storage_ok \<longrightarrow> ''dark'' \<notin> root_classes (browser p))"

lemma page_inv_init: "initial_browser b \<Longrightarrow> page_inv (init_page b)"
  by (simp add: page_inv_def init_page_def initial_browser_def timers_inv_def)

lemma own_timers_new_mount:
  "timers_inv p \<Longrightarrow> filter (\<lambda>x. snd x = Reset_submitted (Suc (mount_count p))) (timers (browser p)) = []"
  by (fastforce simp: timers_inv_def filter_empty_conv)

lemma synced_mounted_browser: "theme_synced (prefers_dark b) (mounted_browser b)"
  by (simp add: theme_synced_def mounted_browser_def dark_classes_def)

lemma page_inv_mount_home:
  assumes t: "timers_inv p"
    and nd: "storage_mode (browser p) \<noteq> Storage_ok \<longrightarrow> ''dark'' \<notin> root_classes (browser p)"
  shows "page_inv (mount_home p)"
proof (cases "storage_mode (browser p) = Storage_ok")
  case True
  from t have "own_timers (home_initial p) = []"
    using own_timers_new_mount by (simp add: own_timers_def home_initial_def)
  with t True show ?thesis
    by (fastforce simp: mount_home_ok page_inv_def home_initial_def mounted_browser_def
        synced_mounted_browser [unfolded mounted_browser_def] submit_timer_inv_def
        own_timers_def timers_inv_def contact_init_def)
next
  case False
  with t nd show ?thesis
    by (fastforce simp: mount_home_fails page_inv_def crash_def home_initial_def
        scroll_effect_cleanup_def remove_scroll_listener_def timers_inv_def)
qed

lemma page_inv_toggle_theme:
  "page_inv p \<Longrightarrow> phase p = Mounted \<Longrightarrow> page_inv (page_toggle_theme p)"
proof (cases "storage_mode (browser p) = Storage_ok")
  case True
  assume "page_inv p" "phase p = Mounted"
  with True show ?thesis
    by (simp add: page_toggle_theme_ok page_inv_def theme_synced_def dark_classes_def
        submit_timer_inv_def own_timers_def timers_inv_def)
next
  case False
  assume "page_inv p"
  with False show ?thesis
    by (simp add: page_toggle_theme_fails page_inv_def crash_def scroll_effect_cleanup_def
        remove_scroll_listener_def timers_inv_def)
qed

lemma page_inv_submit:
  "page_inv p \<Longrightarrow> phase p = Mounted \<Longrightarrow> page_inv (page_submit p)"
  by (auto simp: page_submit_def dispatch_submit_def handle_submit_eq page_inv_def
      submit_timer_inv_def own_timers_def timers_inv_def theme_synced_def contact_init_def)

definition tick_browser :: "ms \<Rightarrow> timer_cb browser \<Rightarrow> timer_cb browser" where
  "tick_browser d b =
     b\<lparr>clock := clock b + d, timers := filter (\<lambda>(t, _). \<not> t \<le> clock b + d) (timers b)\<rparr>"

lemma tick_browser_simps [simp]:
  "clock (tick_browser d b) = clock b + d"
  "timers (tick_browser d b) = filter (\<lambda>(t, _). \<not> t \<le> clock b + d) (timers b)"
  "local_storage (tick_browser d b) = local_storage b"
  "storage_mode (tick_browser d b) = storage_mode b"
  "root_classes (tick_browser d b) = root_classes b"
  "scroll_listener (tick_browser d b) = scroll_listener b"
  by (simp_all add: tick_browser_def)

lemma own_timers_tick:
  assumes "mount_count q = mount_count p" and "browser q = tick_browser d (browser p)"
  shows "own_timers q = filter (\<lambda>x. \<not> fst x \<le> clock (browser p) + d) (own_timers p)"
  using assms by (simp add: own_timers_def tick_browser_def filter_filter conj_commute split_beta)

lemma page_inv_tick:
  assumes inv: "page_inv p"
  shows "page_inv (page_tick d p)"
proof -
  let ?now = "clock (browser p) + d"
  let ?R = "Reset_submitted (mount_count p)"
  have tick: "page_tick d p =
     (if phase p = Mounted \<and> (\<exists>t. (t, ?R) \<in> set (timers (browser p)) \<and> t \<le> ?now)
      then p\<lparr>browser := tick_browser d (browser p), contact := reset_submitted (contact p)\<rparr>
      else p\<lparr>browser := tick_browser d (browser p)\<rparr>)"
    unfolding page_tick_eq tick_browser_def Let_def by (rule refl)
  have base: "(scroll_listener (tick_browser d (browser p)) \<longleftrightarrow> phase p = Mounted) \<and>
      theme_synced (is_dark p) (tick_browser d (browser p)) = theme_synced (is_dark p) (browser p) \<and>
      expanded_valid (expanded_project p) \<and>
      (\<forall>x \<in> set (timers (tick_browser d (browser p))). cb_mount (snd x) \<le> mount_count p) \<and>
      (storage_mode (tick_browser d (browser p)) = Storage_ok \<longrightarrow> phase p \<noteq> Crashed)"
    using inv by (auto simp: page_inv_def tick_browser_def theme_synced_def timers_inv_def)
  show ?thesis
  proof (cases "phase p = Mounted \<and> (\<exists>t. (t, ?R) \<in> set (timers (browser p)) \<and> t \<le> ?now)")
    case True
    then obtain t where t: "(t, ?R) \<in> set (timers (browser p))" "t \<le> ?now" by blast
    from inv True have "length (own_timers p) \<le> 1"
      by (simp add: page_inv_def submit_timer_inv_def)
    moreover from t have "(t, ?R) \<in> set (own_timers p)"
      by (simp add: own_timers_def)
    ultimately have "own_timers p = [(t, ?R)]"
      by (rule length_le_1_member)
    with t have "own_timers (p\<lparr>browser := tick_browser d (browser p),
                               contact := reset_submitted (contact p)\<rparr>) = []"
      by (subst own_timers_tick [where p = p and d = d]) simp_all
    with inv True base show ?thesis
      by (simp add: tick page_inv_def submit_timer_inv_def timers_inv_def reset_submitted_def)
  next
    case False
    show ?thesis
    proof (cases "phase p = Mounted")
      case True
      with False have nd: "\<forall>x \<in> set (own_timers p). \<not> fst x \<le> ?now"
        by (auto simp: own_timers_def)
      then have "own_timers (p\<lparr>browser := tick_browser d (browser p)\<rparr>) = own_timers p"
        by (subst own_timers_tick [where p = p and d = d]) (simp_all add: filter_id_conv)
      with inv True False base nd show ?thesis
        by (auto simp: tick page_inv_def submit_timer_inv_def timers_inv_def)
    next
      case False
      with inv base show ?thesis
        by (simp add: tick page_inv_def timers_inv_def)
    qed
  qed
qed

lemma page_inv_unmounted_fields:
  assumes "page_inv p" and "phase p = Mounted"
    and "phase q = Mounted" and "browser q = browser p" and "is_dark q = is_dark p"
    and "mount_count q = mount_count p" and "submitted (contact q) = submitted (contact p)"
    and "expanded_valid (expanded_project q)"
  shows "page_inv q"
  using assms by (simp add: page_inv_def submit_timer_inv_def own_timers_def timers_inv_def)

lemma page_inv_when_mounted:
  "page_inv p \<Longrightarrow> (phase p = Mounted \<Longrightarrow> page_inv (f p)) \<Longrightarrow> page_inv (when_mounted f p)"
  by (cases "phase p = Mounted") simp_all

lemma page_inv_step:
  assumes inv: "page_inv p"
  shows "page_inv (page_step e p)"
proof (cases e)
  case Mount
  show ?thesis
  proof (cases "phase p = Unmounted")
    case True
    from inv have "timers_inv p"
      and "storage_mode (browser p) \<noteq> Storage_ok \<longrightarrow> ''dark'' \<notin> root_classes (browser p)"
      by (simp_all add: page_inv_def)
    with True Mount show ?thesis by (simp add: page_inv_mount_home)
  next
    case False
    with inv Mount show ?thesis by simp
  qed
next
  case Unmount
  with inv show ?thesis
    by (cases "phase p = Mounted")
      (auto simp: unmount_home_def page_inv_def scroll_effect_cleanup_def
        remove_scroll_listener_def timers_inv_def)
next
  case Reload
  then show ?thesis
    by (simp add: page_inv_mount_home timers_inv_def fresh_document_def)
next
  case Toggle_theme
  then show ?thesis
    by (simp add: page_inv_when_mounted [OF inv] page_inv_toggle_theme [OF inv])
next
  case Toggle_menu
  show ?thesis unfolding Toggle_menu
    by (simp, rule page_inv_when_mounted [OF inv])
      (rule page_inv_unmounted_fields [OF inv], simp_all add: inv [unfolded page_inv_def])
next
  case (Mobile_link i)
  show ?thesis unfolding Mobile_link
    by (simp, rule page_inv_when_mounted [OF inv])
      (rule page_inv_unmounted_fields [OF inv], simp_all add: inv [unfolded page_inv_def])
next
  case (Scroll_to y)
  with inv show ?thesis
    by (auto simp: page_scroll_def window_scroll_eq page_inv_def submit_timer_inv_def
        own_timers_def timers_inv_def theme_synced_def split: if_splits)
next
  case (Project_button i)
  show ?thesis unfolding Project_button
    by (simp, rule page_inv_when_mounted [OF inv])
      (rule page_inv_unmounted_fields [OF inv],
        simp_all add: inv [unfolded page_inv_def] click_project_button_valid)
next
  case (Edit fld v)
  show ?thesis unfolding Edit
    by (simp, rule page_inv_when_mounted [OF inv])
      (rule page_inv_unmounted_fields [OF inv],
        simp_all add: inv [unfolded page_inv_def] dispatch_change_keeps_submitted)
next
  case Submit
  then show ?thesis
    by (simp add: page_inv_when_mounted [OF inv] page_inv_submit [OF inv])
next
  case (Tick d)
  with inv show ?thesis
    by (simp add: page_inv_tick)
next
  case (System_scheme v)
  with inv show ?thesis
    by (simp add: page_inv_def submit_timer_inv_def own_timers_def timers_inv_def
        theme_synced_def)
qed

lemma reachable_page_inv: "reachable p \<Longrightarrow> page_inv p"
proof (induction rule: reachable.induct)
  case (start b)
  then show ?case by (rule page_inv_init)
next
  case (step p e)
  from step.IH show ?case by (rule page_inv_step)
qed

section \<open>Properties of the page\<close>

text \<open>With a failing storage no effect ever completes, so the document never gets the
  \<open>dark\<close> class.\<close>

lemma reachable_failing_storage_no_dark:
  "reachable p \<Longrightarrow> storage_mode (browser p) \<noteq> Storage_ok \<Longrightarrow> ''dark'' \<notin> root_classes (browser p)"
  using reachable_page_inv by (simp add: page_inv_def)

text \<open>C1: in every reachable state of a mounted page, the \<open>dark\<close> class of the document
  and the stored theme agree with \<open>isDark\<close>.\<close>

theorem reachable_theme_synced:
  assumes "reachable p" and "phase p = Mounted"
  shows "theme_synced (is_dark p) (browser p)"
  using reachable_page_inv [OF assms(1)] assms(2) by (simp add: page_inv_def)

theorem reachable_theme_synced_witness:
  "phase (page_run [Mount, Toggle_theme] (init_page (first_load_browser [''theme'' \<mapsto> ''dark''] False))) = Mounted \<and>
   theme_synced (is_dark (page_run [Mount, Toggle_theme] (init_page (first_load_browser [''theme'' \<mapsto> ''dark''] False))))
     (browser (page_run [Mount, Toggle_theme] (init_page (first_load_browser [''theme'' \<mapsto> ''dark''] False))))"
proof -
  have m: "phase (page_run [Mount, Toggle_theme] (init_page (first_load_browser [''theme'' \<mapsto> ''dark''] False))) = Mounted"
    by code_simp
  show ?thesis
    using reachable_theme_synced [OF reachable_first_load m] m by simp
qed

text \<open>C13: the scroll handler is registered exactly while the page is mounted: mounting
  subscribes it, unmounting and crashing remove it.\<close>

theorem reachable_listener_iff_mounted:
  assumes "reachable p"
  shows "scroll_listener (browser p) \<longleftrightarrow> phase p = Mounted"
  using reachable_page_inv [OF assms] by (simp add: page_inv_def)

theorem reachable_listener_iff_mounted_witness:
  "scroll_listener (browser (page_run [Mount, Unmount] (init_page (first_load_browser Map.empty True)))) = False"
proof -
  have "phase (page_run [Mount, Unmount] (init_page (first_load_browser Map.empty True))) \<noteq> Mounted"
    by code_simp
  then show ?thesis
    using reachable_listener_iff_mounted [OF reachable_first_load] by simp
qed

text \<open>C14: with a working storage the page never crashes.\<close>

theorem storage_ok_never_crashes:
  assumes "reachable p" and "storage_mode (browser p) = Storage_ok"
  shows "phase p \<noteq> Crashed"
  using reachable_page_inv [OF assms(1)] assms(2) by (simp add: page_inv_def)

theorem storage_ok_never_crashes_witness:
  "phase (page_run [Mount, Toggle_theme, Reload, Toggle_theme] (init_page (first_load_browser Map.empty False))) \<noteq> Crashed"
proof -
  have "storage_mode (browser (page_run [Mount, Toggle_theme, Reload, Toggle_theme]
          (init_page (first_load_browser Map.empty False)))) = Storage_ok"
    by code_simp
  with storage_ok_never_crashes [OF reachable_first_load] show ?thesis by blast
qed

text \<open>C15: the expanded project, when there is one, is always a project of the list.\<close>

theorem reachable_expanded_listed:
  assumes "reachable p" and "expanded_project p = Some pid"
  shows "pid \<in> project_id ` set projects"
  using reachable_page_inv [OF assms(1)] assms(2) by (simp add: page_inv_def expanded_valid_def)

theorem reachable_expanded_listed_witness:
  "(2::nat) \<in> project_id ` set projects"
proof -
  have "expanded_project (page_run [Mount, Project_button 1] (init_page (first_load_browser Map.empty False))) = Some 2"
    by code_simp
  with reachable_expanded_listed [OF reachable_first_load] show ?thesis by blast
qed

lemma reachable_submit_timer_inv:
  "reachable p \<Longrightarrow> phase p = Mounted \<Longrightarrow> submit_timer_inv p"
  using reachable_page_inv by (simp add: page_inv_def)

text \<open>C16: while mounted, the success message is shown exactly when one reset callback
  of this mount is pending, and there is never more than one.\<close>

theorem reachable_one_pending_reset:
  assumes "reachable p" and "phase p = Mounted"
  shows "(submitted (contact p) \<longleftrightarrow> own_timers p \<noteq> []) \<and> length (own_timers p) \<le> 1"
  using reachable_submit_timer_inv [OF assms] by (simp add: submit_timer_inv_def)

theorem reachable_one_pending_reset_witness:
  "submitted (contact (page_run [Mount, Edit Name_field ''Ann'', Edit Email_field ''ann@example.com'',
       Edit Message_field ''Hi'', Submit] (init_page (first_load_browser Map.empty False)))) \<and>
   length (own_timers (page_run [Mount, Edit Name_field ''Ann'', Edit Email_field ''ann@example.com'',
       Edit Message_field ''Hi'', Submit] (init_page (first_load_browser Map.empty False)))) = 1"
proof -
  let ?p = "page_run [Mount, Edit Name_field ''Ann'', Edit Email_field ''ann@example.com'',
       Edit Message_field ''Hi'', Submit] (init_page (first_load_browser Map.empty False))"
  have m: "phase ?p = Mounted" and s: "submitted (contact ?p)"
    by code_simp+
  from reachable_one_pending_reset [OF reachable_first_load m] s
  have "own_timers ?p \<noteq> []" and "length (own_timers ?p) \<le> 1"
    by simp_all
  with s show ?thesis by (cases "own_timers ?p") auto
qed

text \<open>Time passing on a mounted page: the success message stays exactly when the
  pending reset of this mount is due later than the new time.\<close>

lemma page_tick_submitted:
  assumes inv: "submit_timer_inv p" and m: "phase p = Mounted"
  shows "submitted (contact (page_tick d p)) \<longleftrightarrow>
         (\<exists>x \<in> set (own_timers p). clock (browser p) + d < fst x)"
proof (cases "own_timers p")
  case Nil
  with inv have "\<not> submitted (contact p)"
    by (simp add: submit_timer_inv_def)
  with Nil show ?thesis
    by (auto simp: page_tick_eq Let_def reset_submitted_def)
next
  case (Cons x xs)
  with inv have one: "own_timers p = [x]" and sub: "submitted (contact p)"
    by (auto simp: submit_timer_inv_def)
  have "x \<in> set (own_timers p)"
    using one by simp
  then have x: "x \<in> set (timers (browser p))" "snd x = Reset_submitted (mount_count p)"
    by (simp_all add: own_timers_def)
  have other: "y \<in> set (timers (browser p)) \<Longrightarrow> snd y = Reset_submitted (mount_count p) \<Longrightarrow> y = x"
    for y
  proof -
    assume "y \<in> set (timers (browser p))" and "snd y = Reset_submitted (mount_count p)"
    then have "y \<in> set (own_timers p)"
      by (simp add: own_timers_def)
    with one show "y = x" by simp
  qed
  show ?thesis
  proof (cases "fst x \<le> clock (browser p) + d")
    case True
    with x have "\<exists>t. (t, Reset_submitted (mount_count p)) \<in> set (timers (browser p)) \<and>
                    t \<le> clock (browser p) + d"
      by (metis prod.collapse)
    with m True one show ?thesis
      by (simp add: page_tick_eq Let_def reset_submitted_def)
  next
    case False
    with other have "\<not> (\<exists>t. (t, Reset_submitted (mount_count p)) \<in> set (timers (browser p)) \<and>
                        t \<le> clock (browser p) + d)"
      by fastforce
    with False one sub show ?thesis
      by (auto simp: page_tick_eq Let_def)
  qed
qed

text \<open>C17: 3000 ms after any reachable moment of a mounted page, the success message is
  gone: the pending reset is due by then and fires.\<close>

theorem submitted_resets_after_delay:
  assumes "reachable p" and "phase p = Mounted" and "submitted (contact p)"
  shows "\<not> submitted (contact (page_step (Tick 3000) p))"
proof -
  have inv: "submit_timer_inv p"
    using assms(1,2) by (rule reachable_submit_timer_inv)
  then have "\<forall>x \<in> set (own_timers p). fst x \<le> clock (browser p) + 3000"
    by (simp add: submit_timer_inv_def)
  with page_tick_submitted [OF inv assms(2)] show ?thesis
    by auto
qed

theorem submitted_resets_after_delay_witness:
  "\<not> submitted (contact (page_step (Tick 3000) (page_run [Mount, Edit Name_field ''Ann'',
       Edit Email_field ''ann@example.com'', Edit Message_field ''Hi'', Submit, Tick 1200]
       (init_page (first_load_browser Map.empty False)))))"
proof -
  let ?p = "page_run [Mount, Edit Name_field ''Ann'', Edit Email_field ''ann@example.com'',
       Edit Message_field ''Hi'', Submit, Tick 1200] (init_page (first_load_browser Map.empty False))"
  have "phase ?p = Mounted" and "submitted (contact ?p)"
    by code_simp+
  with submitted_resets_after_delay [OF reachable_first_load] show ?thesis
    by blast
qed

text \<open>C18: the success message is not cut short: while the reset of the current mount is
  not yet due, time passing leaves it shown, even when a callback of an earlier mount
  fires meanwhile (React drops the setter of an unmounted instance).\<close>

theorem reset_not_before_due:
  assumes "reachable p" and "phase p = Mounted"
    and "(t, Reset_submitted (mount_count p)) \<in> set (timers (browser p))"
    and "clock (browser p) + d < t"
  shows "submitted (contact (page_step (Tick d) p))"
proof -
  have inv: "submit_timer_inv p"
    using assms(1,2) by (rule reachable_submit_timer_inv)
  have "(t, Reset_submitted (mount_count p)) \<in> set (own_timers p)"
    using assms(3) by (simp add: own_timers_def)
  with assms(4) page_tick_submitted [OF inv assms(2)] show ?thesis
    by force
qed

theorem reset_not_before_due_witness:
  "submitted (contact (page_step (Tick 2500) (page_run [Mount, Edit Name_field ''Ann'',
       Edit Email_field ''ann@example.com'', Edit Message_field ''Hi'', Submit, Tick 1000,
       Unmount, Mount, Edit Name_field ''Bo'', Edit Email_field ''bo@example.com'',
       Edit Message_field ''Hey'', Submit] (init_page (first_load_browser Map.empty False)))))"
proof -
  let ?p = "page_run [Mount, Edit Name_field ''Ann'',
       Edit Email_field ''ann@example.com'', Edit Message_field ''Hi'', Submit, Tick 1000,
       Unmount, Mount, Edit Name_field ''Bo'', Edit Email_field ''bo@example.com'',
       Edit Message_field ''Hey'', Submit] (init_page (first_load_browser Map.empty False))"
  have "phase ?p = Mounted"
    and "(4000, Reset_submitted (mount_count ?p)) \<in> set (timers (browser ?p))"
    and "clock (browser ?p) + 2500 < 4000"
    by code_simp+
  with reset_not_before_due [OF reachable_first_load] show ?thesis
    by blast
qed

text \<open>A load does not look at the restored scroll position: after a reload the
  navigation bar is transparent whatever \<open>window.scrollY\<close> is, until the first scroll
  event.\<close>

theorem reload_ignores_scroll_offset:
  assumes "storage_mode (browser p) = Storage_ok"
  shows "\<not> is_scrolled (page_step Reload p) \<and>
         scroll_y (browser (page_step Reload p)) = scroll_y (browser p)"
  using assms
  by (simp add: mount_home_ok home_initial_def mounted_browser_def fresh_document_def)

theorem reload_ignores_scroll_offset_witness:
  "\<not> is_scrolled (page_step Reload (init_page ((first_load_browser Map.empty False)\<lparr>scroll_y := 300\<rparr>))) \<and>
   scroll_y (browser (page_step Reload (init_page ((first_load_browser Map.empty False)\<lparr>scroll_y := 300\<rparr>)))) = 300"
  using reload_ignores_scroll_offset [of "init_page ((first_load_browser Map.empty False)\<lparr>scroll_y := 300\<rparr>)"]
  by (simp add: init_page_def first_load_browser_def)

text \<open>C19: on a mounted page, a scroll event sets the flag to \<open>scrollY > 50\<close>.\<close>

theorem scroll_event_sets_flag:
  assumes "reachable p" and "phase p = Mounted"
  shows "is_scrolled (page_step (Scroll_to y) p) \<longleftrightarrow> 50 < y"
proof -
  have "scroll_listener (browser p)"
    using reachable_page_inv [OF assms(1)] assms(2) by (simp add: page_inv_def)
  then show ?thesis
    by (simp add: page_scroll_def window_scroll_eq)
qed

theorem scroll_event_sets_flag_witness:
  "is_scrolled (page_step (Scroll_to 51) (page_run [Mount] (init_page (first_load_browser Map.empty False))))"
proof -
  have "phase (page_run [Mount] (init_page (first_load_browser Map.empty False))) = Mounted"
    by code_simp
  from scroll_event_sets_flag [OF reachable_first_load this] show ?thesis
    by simp
qed

end
