(* ===== verification/EventLoop.thy ===== *)
theory EventLoop
  imports Page "HOL-Library.While_Combinator"
begin

text \<open>
  The browser's event loop for timers, task by task: while some pending \<open>setTimeout\<close>
  callback is due, take the earliest due one (by due time, then by scheduling order),
  remove it from the queue and run it. \<open>Page.page_tick\<close> runs the due callbacks of a
  time step as one batch; this theory shows that the loop stops and that it ends in the
  state the batch computes.
\<close>

definition due_now :: "timer_cb browser \<Rightarrow> bool" where
  "due_now b \<longleftrightarrow> (\<exists>x \<in> set (timers b). fst x \<le> clock b)"

definition next_due :: "timer_cb browser \<Rightarrow> ms \<times> timer_cb" where
  "next_due b = hd (sort_key fst (filter (\<lambda>x. fst x \<le> clock b) (timers b)))"

text \<open>One task: dequeue the next due callback and run it.\<close>

definition loop_step :: "page \<Rightarrow> page" where
  "loop_step p =
     (let x = next_due (browser p)
      in run_callback (snd x) (p\<lparr>browser := (browser p)\<lparr>timers := remove1 x (timers (browser p))\<rparr>\<rparr>))"

definition run_timers :: "page \<Rightarrow> page option" where
  "run_timers p = while_option (\<lambda>q. due_now (browser q)) loop_step p"

definition page_tick_loop :: "ms \<Rightarrow> page \<Rightarrow> page option" where
  "page_tick_loop d p = run_timers (p\<lparr>browser := (browser p)\<lparr>clock := clock (browser p) + d\<rparr>\<rparr>)"

section \<open>Facts about one task\<close>

lemma run_callback_browser [simp]: "browser (run_callback c p) = browser p"
  by (cases c) simp

lemma next_due_in:
  assumes "due_now b"
  shows "next_due b \<in> set (timers b)" and "fst (next_due b) \<le> clock b"
proof -
  let ?ds = "filter (\<lambda>x. fst x \<le> clock b) (timers b)"
  from assms have "?ds \<noteq> []"
    by (auto simp: due_now_def filter_empty_conv)
  then have "sort_key fst ?ds \<noteq> []"
    by (metis length_0_conv length_sort)
  then have "hd (sort_key fst ?ds) \<in> set ?ds"
    using hd_in_set [of "sort_key fst ?ds"] by simp
  then have "next_due b \<in> set ?ds"
    by (simp only: next_due_def)
  then show "next_due b \<in> set (timers b)" and "fst (next_due b) \<le> clock b"
    by simp_all
qed

lemma length_loop_step:
  "due_now (browser p) \<Longrightarrow>
   length (timers (browser (loop_step p))) < length (timers (browser p))"
proof -
  assume "due_now (browser p)"
  then have "next_due (browser p) \<in> set (timers (browser p))"
    by (rule next_due_in(1))
  then have "0 < length (timers (browser p))"
    by (rule length_pos_if_in_set)
  with \<open>next_due (browser p) \<in> set (timers (browser p))\<close> show ?thesis
    by (simp add: loop_step_def Let_def length_remove1)
qed

text \<open>
  A task changes the batch outcome of the rest of the time step not at all: the state
  the batch reaches from the queue after the task equals the state it reaches from the
  queue before it. This holds whichever due callback the task picks.
\<close>

lemma set_remove1_insert:
  "x \<in> set xs \<Longrightarrow> set xs = insert x (set (remove1 x xs))"
  by (induction xs) auto

lemma reset_submitted_idem [simp]: "reset_submitted (reset_submitted s) = reset_submitted s"
  by (simp add: reset_submitted_def)

lemma loop_step_tick:
  assumes due: "due_now (browser p)"
  shows "page_tick 0 (loop_step p) = page_tick 0 (p :: page)"
proof -
  let ?b = "browser p" and ?x = "next_due (browser p)"
  let ?own = "Reset_submitted (mount_count p)"
  have x_in: "?x \<in> set (timers ?b)" and x_due: "fst ?x \<le> clock ?b"
    using next_due_in [OF due] by simp_all
  have keep: "filter (\<lambda>(t, _). \<not> t \<le> clock ?b) (remove1 ?x (timers ?b)) =
              filter (\<lambda>(t, _). \<not> t \<le> clock ?b) (timers ?b)"
    using x_due by (simp add: filter_remove1 split_beta)
  have members: "(\<exists>t. (t, ?own) \<in> set (timers ?b) \<and> t \<le> clock ?b) \<longleftrightarrow>
      snd ?x = ?own \<or> (\<exists>t. (t, ?own) \<in> set (remove1 ?x (timers ?b)) \<and> t \<le> clock ?b)"
    using set_remove1_insert [OF x_in] x_due
    by (metis (no_types, lifting) insert_iff prod.collapse prod.inject)
  obtain k where k: "snd ?x = Reset_submitted k" by (cases "snd ?x")
  show ?thesis
    using members keep k
    by (auto simp: page_tick_eq loop_step_def Let_def)
qed


lemma no_due_tick:
  assumes "\<not> due_now (browser p)"
  shows "page_tick 0 p = p"
proof -
  have "filter (\<lambda>(t, _). \<not> t \<le> clock (browser p)) (timers (browser p)) = timers (browser p)"
    using assms by (auto simp: due_now_def filter_id_conv)
  moreover have "\<not> (\<exists>t. (t, Reset_submitted (mount_count p)) \<in> set (timers (browser p)) \<and>
                     t \<le> clock (browser p))"
    using assms by (force simp: due_now_def)
  ultimately show ?thesis
    by (auto simp: page_tick_eq Let_def)
qed

lemma run_timers_tick: "run_timers p = Some (page_tick 0 p)"
proof (induction "length (timers (browser p))" arbitrary: p rule: less_induct)
  case less
  show ?case
  proof (cases "due_now (browser p)")
    case True
    then have "run_timers p = run_timers (loop_step p)"
      unfolding run_timers_def by (subst while_option_unfold) simp
    also have "\<dots> = Some (page_tick 0 (loop_step p))"
      using less length_loop_step [OF True] by blast
    finally show ?thesis
      using loop_step_tick [OF True] by simp
  next
    case False
    then show ?thesis
      unfolding run_timers_def by (subst while_option_unfold) (simp add: no_due_tick)
  qed
qed

lemma page_tick_advance:
  "page_tick 0 (p\<lparr>browser := (browser p)\<lparr>clock := clock (browser p) + d\<rparr>\<rparr>) = page_tick d p"
  by (auto simp: page_tick_eq Let_def)

section \<open>What a time step does\<close>

text \<open>C22: The browser's event loop, running the due timers one task at a time, stops,
  and ends in the page the batch step \<open>Page.page_tick\<close> computes. That page is: the clock
  advanced, every due timer gone from the queue, and the success message of the contact
  form reset exactly when the page is mounted and a reset scheduled by the current
  instance (line 567) is due; stale callbacks of earlier instances have no effect.
\<close>

theorem page_tick_loop_eq:
  "page_tick_loop d p = Some (page_tick d p) \<and>
   page_tick d p =
     (let b = (browser p)\<lparr>clock := clock (browser p) + d,
                         timers := filter (\<lambda>(t, _). \<not> t \<le> clock (browser p) + d) (timers (browser p))\<rparr>
      in if phase p = Mounted \<and>
            (\<exists>t. (t, Reset_submitted (mount_count p)) \<in> set (timers (browser p)) \<and>
                 t \<le> clock (browser p) + d)
         then p\<lparr>browser := b, contact := (contact p)\<lparr>submitted := False\<rparr>\<rparr>
         else p\<lparr>browser := b\<rparr>)"
proof
  show "page_tick_loop d p = Some (page_tick d p)"
    unfolding page_tick_loop_def run_timers_tick page_tick_advance ..
  show "page_tick d p = (let b = (browser p)\<lparr>clock := clock (browser p) + d,
                         timers := filter (\<lambda>(t, _). \<not> t \<le> clock (browser p) + d) (timers (browser p))\<rparr>
      in if phase p = Mounted \<and>
            (\<exists>t. (t, Reset_submitted (mount_count p)) \<in> set (timers (browser p)) \<and>
                 t \<le> clock (browser p) + d)
         then p\<lparr>browser := b, contact := (contact p)\<lparr>submitted := False\<rparr>\<rparr>
         else p\<lparr>browser := b\<rparr>)"
    unfolding page_tick_eq reset_submitted_def ..
qed

end
