(* ===== verification/PageStorage.thy ===== *)
theory PageStorage
  imports Page
begin

text \<open>
  What the page leaves in \<open>localStorage\<close>: only the mount (effect 2 of \<open>Home\<close>, lines
  800-808 of src/app/page.js) and the theme toggle write to storage, and what they write
  is \<open>'light'\<close> or \<open>'dark'\<close>. So once the page has mounted with a working storage, the
  saved theme is a value effect 3 (lines 811-816) understands, also after an unmount or
  a reload.
\<close>

lemma mount_home_storage:
  "storage_mode (browser (mount_home p)) = storage_mode (browser p) \<and>
   mount_count (mount_home p) = Suc (mount_count p)"
  by (cases "storage_mode (browser p) = Storage_ok")
    (simp_all add: mount_home_ok mount_home_fails mounted_browser_def crash_def
      home_initial_def scroll_effect_cleanup_def remove_scroll_listener_def)

lemma page_toggle_theme_storage:
  "storage_mode (browser (page_toggle_theme p)) = storage_mode (browser p) \<and>
   mount_count (page_toggle_theme p) = mount_count p"
  by (cases "storage_mode (browser p) = Storage_ok")
    (simp_all add: page_toggle_theme_ok page_toggle_theme_fails crash_def
      scroll_effect_cleanup_def remove_scroll_listener_def)

text \<open>Every other step leaves storage and the instance count alone.\<close>

lemma page_step_storage_frame:
  assumes "e \<notin> {Mount, Reload, Toggle_theme}"
  shows "local_storage (browser (page_step e p)) = local_storage (browser p) \<and>
         storage_mode (browser (page_step e p)) = storage_mode (browser p) \<and>
         mount_count (page_step e p) = mount_count p"
  using assms
  by (cases e) (auto simp: when_mounted_def page_scroll_def window_scroll_eq page_submit_def
      dispatch_submit_def handle_submit_def set_timeout_def page_tick_eq Let_def
      unmount_home_def scroll_effect_cleanup_def remove_scroll_listener_def)

text \<open>C23: In every reachable state in which storage works and \<open>Home\<close> has been mounted at
  least once, the saved theme is \<open>'light'\<close> or \<open>'dark'\<close>, whatever the storage held at
  the first visit.
\<close>

theorem reachable_saved_theme:
  assumes "reachable p" and "storage_mode (browser p) = Storage_ok" and "0 < mount_count p"
  shows "local_storage (browser p) ''theme'' \<in> {Some ''light'', Some ''dark''}"
  using assms
proof (induction rule: reachable.induct)
  case (start b)
  then show ?case by (simp add: init_page_def)
next
  case (step p e)
  consider "e = Mount" | "e = Reload" | "e = Toggle_theme" | "e \<notin> {Mount, Reload, Toggle_theme}"
    by blast
  then show ?case
  proof cases
    case 1
    then show ?thesis using step
      by (cases "phase p = Unmounted")
        (auto simp: mount_home_storage mount_home_ok mounted_browser_def theme_value_def)
  next
    case 2
    let ?q = "p\<lparr>phase := Unmounted, browser := fresh_document (browser p)\<rparr>"
    have "storage_mode (browser ?q) = Storage_ok"
      using step.prems(1) 2 mount_home_storage [of ?q] by simp
    with 2 show ?thesis
      by (simp add: mount_home_ok mounted_browser_def theme_value_def)
  next
    case 3
    then show ?thesis using step page_toggle_theme_storage [of p]
      by (cases "phase p = Mounted")
        (auto simp: page_toggle_theme_ok theme_value_def)
  next
    case 4
    then show ?thesis using step page_step_storage_frame [OF 4, of p] by simp
  qed
qed

theorem reachable_saved_theme_witness:
  "local_storage (browser (page_run [Mount, Toggle_theme, Unmount]
     (init_page (first_load_browser [''theme'' \<mapsto> ''blue''] True)))) ''theme'' = Some ''light''"
proof -
  let ?p = "page_run [Mount, Toggle_theme, Unmount]
              (init_page (first_load_browser [''theme'' \<mapsto> ''blue''] True))"
  have "local_storage (browser ?p) ''theme'' \<in> {Some ''light'', Some ''dark''}"
    by (rule reachable_saved_theme [OF reachable_first_load]) code_simp+
  moreover have "local_storage (browser ?p) ''theme'' = Some ''light''"
    by code_simp
  ultimately show ?thesis by simp
qed

end
