(* ===== verification/Document.thy ===== *)
theory Document
  imports Navbar Contact
begin

text \<open>
  The static structure of the document: the \<open>Hero\<close> section (src/app/page.js, lines
  109-202), the \<open>Footer\<close> (lines 724-783), the order in which \<open>Home\<close> renders its
  children and the section ids they carry (lines 827-843 and the \<open>id\<close> attributes of
  lines 132, 231, 367, 505 and 578), and the root layout with the page metadata
  (src/app/layout.js). Text is kept as the bytes of the source file, which is UTF-8.
\<close>

section \<open>Hero\<close>

record cta =
  cta_label :: js_string
  cta_href :: js_string
  cta_download :: bool

record hero_view =
  hero_id :: js_string
  hero_badge :: js_string
  hero_name :: js_string
  hero_tagline :: js_string
  hero_ctas :: "cta list"

text \<open>What \<open>Hero\<close> renders, lines 132-199; the animation variants are not modelled.\<close>

definition hero :: hero_view where
  "hero =
     \<lparr>hero_id = ''hero'', hero_badge = ''UI/UX Designer & MCA Student'',
      hero_name = ''Nihal Mishra'',
      hero_tagline = ''Crafting intuitive digital experiences through the perfect blend of design thinking and technology'',
      hero_ctas = [\<lparr>cta_label = ''View Projects'', cta_href = ''#projects'', cta_download = False\<rparr>,
                   \<lparr>cta_label = ''Download Resume'', cta_href = ''/resume.pdf'', cta_download = True\<rparr>]\<rparr>"

section \<open>Footer\<close>

record footer_view =
  footer_logo :: js_string
  footer_name :: js_string
  footer_copyright :: "char list"
  footer_social :: "js_string list"
  footer_top :: js_string

text \<open>
  What \<open>Footer\<close> renders, lines 727-780. The copyright line is kept as the bytes of
  line 735: \<open>C2 AC C2 A9\<close>, then \<open>' 2024 All rights reserved'\<close>.
\<close>

definition footer :: footer_view where
  "footer =
     \<lparr>footer_logo = ''NM'', footer_name = ''Nihal Mishra'',
      footer_copyright = map char_of [0xC2 :: nat, 0xAC, 0xC2, 0xA9] @ '' 2024 All rights reserved'',
      footer_social = [''mailto:nihalmishra@example.com'', ''https://linkedin.com/in/nihalmishra'',
                       ''https://github.com/nihalmishra''],
      footer_top = ''#''\<rparr>"

section \<open>The document\<close>

datatype home_child = Navbar_c | Hero_c | About_c | Projects_c | Skills_c | Contact_c | Footer_c

text \<open>The children of \<open>main\<close>, lines 828-842, in render order.\<close>

definition home_children :: "home_child list" where
  "home_children = [Navbar_c, Hero_c, About_c, Projects_c, Skills_c, Contact_c, Footer_c]"

text \<open>The \<open>id\<close> of each child's root element: lines 132, 231, 367, 505 and 578.\<close>

fun section_id :: "home_child \<Rightarrow> js_string option" where
  "section_id Hero_c = Some (hero_id hero)"
| "section_id About_c = Some ''about''"
| "section_id Projects_c = Some ''projects''"
| "section_id Skills_c = Some ''skills''"
| "section_id Contact_c = Some ''contact''"
| "section_id _ = None"

definition document_ids :: "js_string list" where
  "document_ids = List.map_filter section_id home_children"

text \<open>
  A fragment link \<open>#id\<close> scrolls to the element with that id; the empty fragment
  \<open>#\<close> scrolls to the top (HTML, "scroll to the fragment").
\<close>

definition is_fragment :: "js_string \<Rightarrow> bool" where
  "is_fragment h \<longleftrightarrow> take 1 h = ''#''"

definition resolves :: "js_string \<Rightarrow> bool" where
  "resolves h \<longleftrightarrow> drop 1 h = [] \<or> drop 1 h \<in> set document_ids"

section \<open>Root layout\<close>

record root_layout =
  html_lang :: js_string
  suppress_hydration_warning :: bool
  meta_title :: js_string
  meta_description :: js_string

text \<open>src/app/layout.js: the \<open>metadata\<close> export (lines 6-9) and the \<open><html>\<close> element.\<close>

definition layout :: root_layout where
  "layout =
     \<lparr>html_lang = ''en'', suppress_hydration_warning = True,
      meta_title = ''Nihal Mishra | UI/UX Designer & MCA Student'',
      meta_description = ''Portfolio of Nihal Mishra - UI/UX Designer and MCA Student specializing in creating intuitive digital experiences''\<rparr>"

end
