(* ===== verification/Skills.thy ===== *)
theory Skills
  imports JsString
begin

text \<open>
  The static skill data of \<open>About\<close> (lines 205-228) and \<open>Skills\<close> (lines 473-556)
  of \<open>src/app/page.js\<close>, and the proficiency bars: each bar's width is the template
  literal \<open>`${skill.percentage}%`\<close> (line 541). The \<open>icon\<close> field of the skill
  records is never rendered and is left out.
\<close>

record about_skill =
  about_skill_name :: js_string
  level :: nat

definition about_skills :: "about_skill list" where
  "about_skills = [
     \<lparr>about_skill_name = ''Figma'', level = 95\<rparr>,
     \<lparr>about_skill_name = ''Power BI'', level = 85\<rparr>,
     \<lparr>about_skill_name = ''SQL'', level = 80\<rparr>,
     \<lparr>about_skill_name = ''React'', level = 75\<rparr>,
     \<lparr>about_skill_name = ''UX Research'', level = 90\<rparr>,
     \<lparr>about_skill_name = ''Wireframing'', level = 88\<rparr>]"

record education =
  year :: js_string
  degree :: js_string
  institution :: js_string
  edu_description :: js_string

definition educations :: "education list" where
  "educations = [
     \<lparr>year = ''2023 - Present'', degree = ''Master of Computer Applications (MCA)'',
      institution = ''Lovely Professional University'',
      edu_description = ''Specializing in Human-Computer Interaction and Software Development''\<rparr>,
     \<lparr>year = ''2020 - 2023'', degree = ''Bachelor of Computer Applications (BCA)'',
      institution = ''University of Calcutta'',
      edu_description = ''Foundation in programming, database management, and web technologies''\<rparr>]"

record skill =
  skill_name :: js_string
  percentage :: nat

record skill_category =
  cat_title :: js_string
  cat_skills :: "skill list"

definition skill_categories :: "skill_category list" where
  "skill_categories = [
     \<lparr>cat_title = ''Design Tools'', cat_skills = [
        \<lparr>skill_name = ''Figma'', percentage = 95\<rparr>,
        \<lparr>skill_name = ''Adobe XD'', percentage = 85\<rparr>,
        \<lparr>skill_name = ''Sketch'', percentage = 75\<rparr>,
        \<lparr>skill_name = ''Power BI'', percentage = 80\<rparr>]\<rparr>,
     \<lparr>cat_title = ''Technical Skills'', cat_skills = [
        \<lparr>skill_name = ''React'', percentage = 75\<rparr>,
        \<lparr>skill_name = ''SQL'', percentage = 80\<rparr>,
        \<lparr>skill_name = ''HTML/CSS'', percentage = 85\<rparr>,
        \<lparr>skill_name = ''JavaScript'', percentage = 70\<rparr>]\<rparr>,
     \<lparr>cat_title = ''UX Skills'', cat_skills = [
        \<lparr>skill_name = ''UX Research'', percentage = 90\<rparr>,
        \<lparr>skill_name = ''Wireframing'', percentage = 88\<rparr>,
        \<lparr>skill_name = ''Prototyping'', percentage = 85\<rparr>,
        \<lparr>skill_name = ''Usability Testing'', percentage = 82\<rparr>]\<rparr>]"

text \<open>One bar, lines 533-547: the name, the label \<open>{percentage}%\<close> and the width.\<close>

record bar_view =
  bar_name :: js_string
  bar_label :: js_string
  bar_width :: js_string

definition skill_bar :: "skill \<Rightarrow> bar_view" where
  "skill_bar s =
     \<lparr>bar_name = skill_name s,
      bar_label = js_nat_to_string (percentage s) @ ''%'',
      bar_width = js_nat_to_string (percentage s) @ ''%''\<rparr>"

definition skills_view :: "(js_string \<times> bar_view list) list" where
  "skills_view = map (\<lambda>c. (cat_title c, map skill_bar (cat_skills c))) skill_categories"

end
