(* ===== verification/Sections.thy ===== *)
theory Sections
  imports Document Projects Skills
begin

text \<open>
  The rendered content of the sections that \<open>Page\<close> does not cover through state: the
  heading block of each section and the section element around it, the \<open>About\<close>
  section (src/app/page.js, lines 229-327) and the contact information column (lines
  666-715).
\<close>

section \<open>Section headings\<close>

text \<open>The \<open>h2\<close> and the lead paragraph of each section: lines 239-242, 375-378, 513-516
  and 589-592.\<close>

fun section_heading :: "home_child \<Rightarrow> (js_string \<times> js_string) option" where
  "section_heading About_c = Some (''About Me'',
     ''A passionate UI/UX designer and MCA student bridging the gap between design and development'')"
| "section_heading Projects_c = Some (''Projects'',
     ''Selected case studies showcasing my design process and problem-solving approach'')"
| "section_heading Skills_c = Some (''Skills'',
     ''A comprehensive toolkit spanning design, development, and user research'')"
| "section_heading Contact_c = Some (''Get In Touch'',
     ''Have a project in mind or want to collaborate? Let's connect!'')"
| "section_heading _ = None"

section \<open>About\<close>

record about_view =
  about_intro_title :: js_string
  about_tags_title :: js_string
  about_tags :: "js_string list"
  about_education_title :: js_string
  about_education :: "education list"

text \<open>
  What \<open>About\<close> renders besides its heading: the introduction card (line 254), one tag
  per entry of \<open>skills\<close> showing its name (lines 265-280) and one timeline card per
  entry of \<open>education\<close> (lines 291-320). The \<open>level\<close> of a skill is not rendered.
\<close>

definition about_view :: about_view where
  "about_view =
     \<lparr>about_intro_title = ''Hello, I'm Nihal Mishra'', about_tags_title = ''Technical Skills'',
      about_tags = map about_skill_name about_skills, about_education_title = ''Education'',
      about_education = educations\<rparr>"

section \<open>Contact information\<close>

record social_row =
  row_name :: js_string
  row_href :: js_string
  row_label :: js_string

record contact_aside =
  aside_title :: js_string
  aside_text :: js_string
  aside_rows :: "social_row list"
  availability :: "js_string \<times> js_string"

text \<open>
  The right column of \<open>Contact\<close>, lines 666-715: the "Let's Talk" card with one row per
  social link (name, link and the shortened label of line 698) and the availability card.
\<close>

definition contact_info :: contact_aside where
  "contact_info =
     \<lparr>aside_title = ''Let's Talk'',
      aside_text = ''I'm always open to discussing new projects, creative ideas, or opportunities to be part of your vision.'',
      aside_rows = map (\<lambda>l. \<lparr>row_name = link_name l, row_href = href l, row_label = link_label (href l)\<rparr>)
                     social_links,
      availability = (''Available for Freelance'', ''Open to new opportunities'')\<rparr>"

section \<open>Section shells\<close>

text \<open>
  Each content section renders a \<open><section id=...>\<close>, the heading block above and its
  body. \<open>About\<close>: lines 229-243; \<open>Projects\<close>: lines 363-381; \<open>Skills\<close>: lines 503-519;
  \<open>Contact\<close>: lines 576-606, whose body is the form column titled "Send a Message"
  next to the information column.
\<close>

record 'b section_view =
  sec_id :: js_string
  sec_title :: js_string
  sec_lead :: js_string
  sec_body :: 'b

definition section_shell :: "home_child \<Rightarrow> 'b \<Rightarrow> 'b section_view" where
  "section_shell c body =
     (let (t, l) = the (section_heading c)
      in \<lparr>sec_id = the (section_id c), sec_title = t, sec_lead = l, sec_body = body\<rparr>)"

definition about_section :: "about_view section_view" where
  "about_section = section_shell About_c about_view"

definition projects_section :: "expanded \<Rightarrow> card_view list section_view" where
  "projects_section e = section_shell Projects_c (projects_view e)"

definition skills_section :: "(js_string \<times> bar_view list) list section_view" where
  "skills_section = section_shell Skills_c skills_view"

definition contact_section :: "contact_state \<Rightarrow> (js_string \<times> contact_view \<times> contact_aside) section_view" where
  "contact_section s = section_shell Contact_c (''Send a Message'', contact_view s, contact_info)"

end
