(* ===== verification/HomeView.thy ===== *)
theory HomeView
  imports PageStorage Sections
begin

text \<open>
  What the user sees: the rendering of \<open>Home\<close> (src/app/page.js, lines 827-843) as the
  composition of the section views with the page state, under the document title of the
  root layout (src/app/layout.js). \<open>Home\<close> hands \<open>isDark\<close>,
  \<open>isScrolled\<close> and \<open>mobileMenuOpen\<close> to \<open>Navbar\<close>; \<open>Projects\<close> and \<open>Contact\<close>
  render from their own state. When no instance is mounted, because nothing was mounted
  yet or because an uncaught error unmounted the tree, the page shows nothing.
\<close>

record home_view =
  hv_title :: js_string
  hv_navbar :: navbar_view
  hv_hero :: hero_view
  hv_about :: "about_view section_view"
  hv_projects :: "card_view list section_view"
  hv_skills :: "(js_string \<times> bar_view list) list section_view"
  hv_contact :: "(js_string \<times> contact_view \<times> contact_aside) section_view"
  hv_footer :: footer_view

definition home_view :: "page \<Rightarrow> home_view option" where
  "home_view p =
     (if phase p = Mounted then
        Some \<lparr>hv_title = meta_title layout,
              hv_navbar = navbar (is_dark p) (is_scrolled p) (mobile_menu_open p),
              hv_hero = hero, hv_about = about_section,
              hv_projects = projects_section (expanded_project p), hv_skills = skills_section,
              hv_contact = contact_section (contact p), hv_footer = footer\<rparr>
      else None)"

section \<open>Lemmas\<close>

lemma home_view_Some: "home_view p = Some v \<Longrightarrow> phase p = Mounted \<and>
    hv_navbar v = navbar (is_dark p) (is_scrolled p) (mobile_menu_open p)"
  by (auto simp: home_view_def split: if_splits)

text \<open>An instance that is not mounted is left alone by every step but a (re)load.\<close>

lemma page_step_not_mounted:
  assumes "phase p \<noteq> Mounted" and "e \<notin> {Mount, Reload}"
  shows "phase (page_step e p) = phase p"
  using assms
  by (cases e) (auto simp: page_scroll_def window_scroll_eq page_tick_eq Let_def)

lemma mount_home_failing_storage:
  "storage_mode (browser p) \<noteq> Storage_ok \<Longrightarrow> phase (mount_home p) = Crashed"
  by (simp add: mount_home_fails crash_def)

lemma reachable_failing_storage_not_mounted:
  assumes "reachable p" and "storage_mode (browser p) \<noteq> Storage_ok"
  shows "phase p \<noteq> Mounted"
  using assms
proof (induction rule: reachable.induct)
  case (start b)
  then show ?case by (simp add: init_page_def)
next
  case (step p e)
  consider "e = Mount" | "e = Reload" | "e \<notin> {Mount, Reload}" by blast
  then show ?case
  proof cases
    case 1
    then show ?thesis using step mount_home_storage [of p]
      by (cases "phase p = Unmounted") (auto simp: mount_home_failing_storage)
  next
    case 2
    let ?q = "p\<lparr>phase := Unmounted, browser := fresh_document (browser p)\<rparr>"
    have "storage_mode (browser ?q) \<noteq> Storage_ok"
      using step.prems 2 mount_home_storage [of ?q] by simp
    with 2 show ?thesis by (simp add: mount_home_failing_storage)
  next
    case 3
    have "storage_mode (browser (page_step e p)) = storage_mode (browser p)"
    proof (cases "e = Toggle_theme")
      case True
      then show ?thesis using page_toggle_theme_storage [of p] by (simp add: when_mounted_def)
    next
      case False
      with 3 show ?thesis using page_step_storage_frame [of e p] by simp
    qed
    with step have "phase p \<noteq> Mounted" by simp
    with 3 page_step_not_mounted show ?thesis by simp
  qed
qed

text \<open>C24: Whenever the page shows, the theme button of the navigation bar shows the
  sun exactly when the document carries the \<open>dark\<close> class.\<close>

theorem theme_icon_matches_document:
  assumes "reachable p" and "home_view p = Some v"
  shows "theme_icon (hv_navbar v) = Sun_icon \<longleftrightarrow> ''dark'' \<in> root_classes (browser p)"
proof -
  from assms(2) have m: "phase p = Mounted"
    and nav: "hv_navbar v = navbar (is_dark p) (is_scrolled p) (mobile_menu_open p)"
    by (simp_all add: home_view_Some)
  from reachable_page_inv [OF assms(1)] m have "theme_synced (is_dark p) (browser p)"
    by (simp add: page_inv_def)
  then show ?thesis
    by (simp add: nav navbar_def theme_synced_def)
qed

theorem theme_icon_matches_document_witness:
  "theme_icon (hv_navbar (the (home_view (page_run [Mount, Toggle_theme]
      (init_page (first_load_browser Map.empty False)))))) = Sun_icon \<and>
   ''dark'' \<in> root_classes (browser (page_run [Mount, Toggle_theme]
      (init_page (first_load_browser Map.empty False))))"
proof -
  let ?p = "page_run [Mount, Toggle_theme] (init_page (first_load_browser Map.empty False))"
  have shows_page: "home_view ?p = Some (the (home_view ?p))"
    by code_simp
  have "theme_icon (hv_navbar (the (home_view ?p))) = Sun_icon"
    by code_simp
  moreover have "theme_icon (hv_navbar (the (home_view ?p))) = Sun_icon \<longleftrightarrow>
      ''dark'' \<in> root_classes (browser ?p)"
    by (rule theme_icon_matches_document [OF reachable_first_load shows_page])
  ultimately show ?thesis by simp
qed

text \<open>C25: In a browser whose storage refuses writes (full, or denied as in some private
  modes) the page never shows anything, whatever the user does: every mount and every
  reload throws in the theme effect and unmounts the tree.\<close>

theorem failing_storage_blank_page:
  assumes "reachable p" and "storage_mode (browser p) \<noteq> Storage_ok"
  shows "home_view p = None"
  using reachable_failing_storage_not_mounted [OF assms] by (simp add: home_view_def)

theorem failing_storage_blank_page_witness:
  "home_view (page_run [Mount, Reload, Toggle_theme]
     (init_page ((first_load_browser Map.empty False)\<lparr>storage_mode := Storage_denied\<rparr>))) = None"
proof -
  let ?b = "(first_load_browser Map.empty False)\<lparr>storage_mode := Storage_denied\<rparr>"
  have "reachable (page_run [Mount, Reload, Toggle_theme] (init_page ?b))"
    by (rule reachable_run, rule reachable.start) (simp add: initial_browser_def first_load_browser_def)
  moreover have "storage_mode (browser (page_run [Mount, Reload, Toggle_theme] (init_page ?b))) \<noteq> Storage_ok"
    by code_simp
  ultimately show ?thesis
    by (rule failing_storage_blank_page)
qed

end
