(* ===== verification/Navigation.thy ===== *)
theory Navigation
  imports HomeView
begin

text \<open>
  Following an in-page link. A click on an \<open><a href="#id">\<close> first runs the element's
  \<open>onClick\<close> handler, if any (the mobile menu's links close the menu, line 95), then
  the browser's default action: it scrolls the window to the top of the element with
  that id, or to the top of the page for \<open>#\<close>. The scroll fires a \<open>scroll\<close> event only
  when the offset changes. Where each section lies depends on the layout, so the
  section tops are a parameter \<open>tops\<close>; smooth scrolling, if the missing stylesheet asked
  for it, would fire more scroll events on the way but end at the same offset and flag.
  Links that do not start with \<open>#\<close> (new tabs, the resume download) leave the page
  unchanged.
\<close>

definition fragment_target :: "(js_string \<Rightarrow> px) \<Rightarrow> js_string \<Rightarrow> px option" where
  "fragment_target tops h =
     (if is_fragment h \<and> resolves h then Some (if drop 1 h = [] then 0 else tops (drop 1 h))
      else None)"

definition follow_link :: "(js_string \<Rightarrow> px) \<Rightarrow> js_string \<Rightarrow> page \<Rightarrow> page" where
  "follow_link tops h p =
     (case fragment_target tops h of
        None \<Rightarrow> p
      | Some y \<Rightarrow> if y = scroll_y (browser p) then p else page_scroll y p)"

text \<open>A click on the \<open>i\<close>-th link of the mobile menu (lines 91-99): handler, then navigation.\<close>

definition mobile_nav_click :: "(js_string \<Rightarrow> px) \<Rightarrow> nat \<Rightarrow> page \<Rightarrow> page" where
  "mobile_nav_click tops i p = follow_link tops (nav_href (nav_links ! i)) (page_step (Mobile_link i) p)"

section \<open>Lemmas\<close>

lemma reachable_mounted_listener:
  "reachable p \<Longrightarrow> phase p = Mounted \<Longrightarrow> scroll_listener (browser p)"
  using reachable_page_inv by (simp add: page_inv_def)

lemma nav_links_resolve:
  "i < length nav_links \<Longrightarrow>
   fragment_target tops (nav_href (nav_links ! i)) = Some (tops (drop 1 (nav_href (nav_links ! i))))"
  by (auto simp: fragment_target_def nav_links_def is_fragment_def resolves_def document_ids_def
      home_children_def hero_def map_filter_simps less_Suc_eq)

text \<open>C12: On a mounted page, a click on a link of the mobile menu closes the menu, scrolls the window to the top of the linked section and, when that moved the
  window, sets the bar's \<open>isScrolled\<close> flag to whether the section lies below 50 px;
  when the window was already there no scroll event fires and the flag is unchanged.\<close>

theorem mobile_nav_click_scrolls:
  assumes "reachable p" and "phase p = Mounted" and "i < length nav_links"
  shows "let q = mobile_nav_click tops i p; y = tops (drop 1 (nav_href (nav_links ! i))) in
         \<not> mobile_menu_open q \<and> scroll_y (browser q) = y \<and>
         is_scrolled q = (if y = scroll_y (browser p) then is_scrolled p else 50 < y)"
proof -
  let ?y = "tops (drop 1 (nav_href (nav_links ! i)))"
  let ?p1 = "page_step (Mobile_link i) p"
  have p1: "browser ?p1 = browser p" "is_scrolled ?p1 = is_scrolled p" "\<not> mobile_menu_open ?p1"
    using assms(2,3) by (simp_all add: mobile_link_click_def)
  have "scroll_listener (browser p)"
    by (rule reachable_mounted_listener [OF assms(1,2)])
  with p1 show ?thesis
    by (simp add: mobile_nav_click_def follow_link_def nav_links_resolve [OF assms(3)] Let_def
        page_scroll_def window_scroll_eq)
qed

theorem mobile_nav_click_scrolls_witness:
  "let q = mobile_nav_click (\<lambda>_. 1200) 1 (page_run [Mount, Toggle_menu] (init_page (first_load_browser Map.empty False)))
   in \<not> mobile_menu_open q \<and> scroll_y (browser q) = 1200 \<and> is_scrolled q"
proof -
  let ?p = "page_run [Mount, Toggle_menu] (init_page (first_load_browser Map.empty False))"
  have m: "phase ?p = Mounted" and s: "scroll_y (browser ?p) = 0"
    by code_simp+
  have "1 < length nav_links" by simp
  from mobile_nav_click_scrolls [OF reachable_first_load m this, of "\<lambda>_. 1200"] s show ?thesis
    by (simp add: Let_def)
qed

end
