(* ===== verification/Presence.thy ===== *)
theory Presence
  imports Navbar Projects
begin

text \<open>
  framer-motion's \<open>AnimatePresence\<close>, as the page uses it for the mobile menu
  (src/app/page.js, lines 82-104) and for the body of each project card (lines 410-450).
  \<open>AnimatePresence\<close> tracks its direct children by React key, the empty key for a child
  without one. A child whose key disappears from a render and that declares an \<open>exit\<close>
  animation is kept mounted while the animation plays and removed when it completes; a
  child without \<open>exit\<close> is removed at once. A child whose key is still present is
  updated in place, and no exit animation runs, even when the element itself is a
  different one. The semantics is modelled from framer-motion's documented behaviour,
  with the exit duration a parameter \<open>d\<close> in milliseconds.
\<close>

section \<open>Presence lists\<close>

text \<open>A child is a key, an element and whether it declares an \<open>exit\<close> animation. An
  entry of the presence list adds, for an exiting child, the time its exit ends.\<close>

type_synonym 'e children = "(js_string \<times> 'e \<times> bool) list"
type_synonym 'e presence = "(js_string \<times> 'e \<times> bool \<times> ms option) list"

definition presence_render :: "ms \<Rightarrow> ms \<Rightarrow> 'e children \<Rightarrow> 'e presence \<Rightarrow> 'e presence" where
  "presence_render now d cs st =
     map (\<lambda>(k, e, x). (k, e, x, None)) cs @
     map (\<lambda>(k, e, x, t). (k, e, x, Some (case t of None \<Rightarrow> now + d | Some t' \<Rightarrow> t')))
       (filter (\<lambda>(k, _, x, _). k \<notin> set (map fst cs) \<and> x) st)"

definition presence_tick :: "ms \<Rightarrow> 'e presence \<Rightarrow> 'e presence" where
  "presence_tick now st = filter (\<lambda>(_, _, _, t). case t of None \<Rightarrow> True | Some t' \<Rightarrow> now < t') st"

definition presence_mounted :: "'e presence \<Rightarrow> 'e list" where
  "presence_mounted st = map (\<lambda>(_, e, _). e) st"

definition presence_exiting :: "'e presence \<Rightarrow> 'e list" where
  "presence_exiting st = map (\<lambda>(_, e, _). e) (filter (\<lambda>(_, _, _, t). t \<noteq> None) st)"

text \<open>A render at time \<open>now\<close>: exits that have ended are dropped, then the new children
  are compared with the remaining entries.\<close>

definition presence_step :: "ms \<Rightarrow> ms \<Rightarrow> 'e children \<Rightarrow> 'e presence \<Rightarrow> 'e presence" where
  "presence_step d now cs st = presence_render now d cs (presence_tick now st)"

section \<open>The page's animated panels\<close>

datatype panel = Menu_panel | Case_panel nat | Summary_panel nat

text \<open>Lines 82-104: \<open>{mobileMenuOpen && (<motion.div ... exit={...}>)}\<close>; the panel has no
  key and declares an exit animation (line 87).\<close>

definition menu_children :: "bool \<Rightarrow> panel children" where
  "menu_children menu_open = (if menu_open then [('''', Menu_panel, True)] else [])"

text \<open>Lines 410-450: \<open>expandedProject === project.id ? <motion.div ... exit={...}> : <p>\<close>;
  neither branch has a key, so both are the child with the empty key; only the case
  study declares an exit animation (line 415).\<close>

definition card_children :: "expanded \<Rightarrow> project \<Rightarrow> panel children" where
  "card_children e p =
     [if is_expanded e p then ('''', Case_panel (project_id p), True)
      else ('''', Summary_panel (project_id p), False)]"

text \<open>Renders of one component over time: a list of (time, state) pairs.\<close>

definition menu_run :: "ms \<Rightarrow> (ms \<times> bool) list \<Rightarrow> panel presence" where
  "menu_run d rs = fold (\<lambda>(t, m). presence_step d t (menu_children m)) rs []"

definition card_run :: "ms \<Rightarrow> project \<Rightarrow> (ms \<times> expanded) list \<Rightarrow> panel presence" where
  "card_run d p rs = fold (\<lambda>(t, e). presence_step d t (card_children e p)) rs []"

fun is_case_panel :: "panel \<Rightarrow> bool" where
  "is_case_panel (Case_panel _) = True"
| "is_case_panel _ = False"

section \<open>Lemmas\<close>

text \<open>When every tracked key is among the new children, nothing exits.\<close>

lemma presence_render_covered:
  assumes "set (map fst st) \<subseteq> set (map fst cs)"
  shows "presence_render now d cs st = map (\<lambda>(k, e, x). (k, e, x, None)) cs"
proof -
  have "filter (\<lambda>(k, _, x, _). k \<notin> set (map fst cs) \<and> x) st = []"
  proof (rule filter_False, clarify)
    fix k e x t
    assume "(k, e, x, t) \<in> set st" and "k \<notin> set (map fst cs)"
    then have "k \<in> set (map fst st)" by force
    with assms \<open>k \<notin> set (map fst cs)\<close> show False by blast
  qed
  then show ?thesis by (simp add: presence_render_def)
qed

lemma presence_tick_keys: "set (map fst (presence_tick now st)) \<subseteq> set (map fst st)"
  by (auto simp: presence_tick_def)

text \<open>A card's presence list only ever holds entries under the empty key, so each
  render replaces the previous entry by the current branch, present.\<close>

lemma card_run_keys: "set (map fst (card_run d p rs)) \<subseteq> {''''}"
proof (induction rs rule: rev_induct)
  case Nil
  then show ?case by (simp add: card_run_def)
next
  case (snoc r rs)
  obtain t e where r: "r = (t, e)" by (cases r)
  have "set (map fst (presence_tick t (card_run d p rs))) \<subseteq> {''''}"
    using snoc.IH presence_tick_keys [of t "card_run d p rs"] by blast
  then show ?case
    by (auto simp: card_run_def r presence_step_def presence_render_def card_children_def)
qed

lemma card_run_snoc:
  "card_run d p (rs @ [(t, e)]) = map (\<lambda>(k, x, ex). (k, x, ex, None)) (card_children e p)"
proof -
  have "set (map fst (presence_tick t (card_run d p rs))) \<subseteq> set (map fst (card_children e p))"
    using card_run_keys [of d p rs] presence_tick_keys [of t "card_run d p rs"]
    by (auto simp: card_children_def)
  then show ?thesis
    by (simp add: card_run_def presence_step_def presence_render_covered [simplified card_run_def])
qed

text \<open>The menu's presence list only ever holds entries under the empty key.\<close>

lemma menu_run_keys: "set (map fst (menu_run d rs)) \<subseteq> {''''}"
proof (induction rs rule: rev_induct)
  case Nil
  then show ?case by (simp add: menu_run_def)
next
  case (snoc r rs)
  obtain t m where r: "r = (t, m)" by (cases r)
  have "set (map fst (presence_tick t (menu_run d rs))) \<subseteq> {''''}"
    using snoc.IH presence_tick_keys [of t "menu_run d rs"] by blast
  then show ?case
    by (auto simp: menu_run_def r presence_step_def presence_render_def menu_children_def)
qed

text \<open>Opened, then closed at \<open>now\<close>: the panel is exiting until \<open>now + d\<close>.\<close>

lemma menu_run_open_close:
  "menu_run d (rs @ [(t0, True), (now, False)]) = [('''', Menu_panel, True, Some (now + d))]"
proof -
  have "set (map fst (presence_tick t0 (menu_run d rs))) \<subseteq> set (map fst (menu_children True))"
    using menu_run_keys [of d rs] presence_tick_keys [of t0 "menu_run d rs"]
    by (auto simp: menu_children_def)
  then have "menu_run d (rs @ [(t0, True)]) = [('''', Menu_panel, True, None)]"
    by (simp add: menu_run_def presence_step_def presence_render_covered [simplified menu_run_def]
        menu_children_def)
  then show ?thesis
    by (simp add: menu_run_def presence_step_def presence_render_def presence_tick_def
        menu_children_def)
qed

lemma menu_closed_empty:
  "fold (\<lambda>(t, m). presence_step d t (menu_children m)) (map (\<lambda>t. (t, False)) ts) [] = []"
  by (induction ts) (simp_all add: presence_step_def presence_render_def presence_tick_def
      menu_children_def)

text \<open>Later renders with the menu closed keep the exiting panel until its exit ends.\<close>

lemma menu_closed_renders:
  "fold (\<lambda>(t, m). presence_step d t (menu_children m)) (map (\<lambda>t. (t, False)) ts)
     [('''', Menu_panel, True, Some x)] =
   (if \<exists>t \<in> set ts. x \<le> t then [] else [('''', Menu_panel, True, Some x)])"
proof (induction ts)
  case Nil
  then show ?case by simp
next
  case (Cons t ts)
  show ?case
  proof (cases "x \<le> t")
    case True
    then have "presence_step d t (menu_children False) [('''', Menu_panel, True, Some x)] = []"
      by (simp add: presence_step_def presence_render_def presence_tick_def menu_children_def)
    with True show ?thesis
      by (simp add: menu_closed_empty)
  next
    case False
    then have "presence_step d t (menu_children False) [('''', Menu_panel, True, Some x)] =
               [('''', Menu_panel, True, Some x)]"
      by (simp add: presence_step_def presence_render_def presence_tick_def menu_children_def)
    with False Cons.IH show ?thesis
      by simp
  qed
qed

lemma sorted_le_last: "sorted ts \<Longrightarrow> t \<in> set ts \<Longrightarrow> t \<le> last ts"
  by (induction ts) (auto simp: last_in_set)

text \<open>C26: The exit animation of a card's case study (line 415) never plays: whatever the
  sequence of expansions and collapses, no child of the card's \<open>AnimatePresence\<close> is
  ever exiting, and after each render exactly the element of the current branch is
  mounted, the case study replaced by the summary at once on collapse.\<close>

theorem card_exit_never_plays:
  "presence_exiting (card_run d p rs) = [] \<and>
   presence_mounted (card_run d p (rs @ [(t, e)])) = map (\<lambda>(_, x, _). x) (card_children e p)"
proof
  show "presence_exiting (card_run d p rs) = []"
  proof (cases rs rule: rev_exhaust)
    case Nil
    then show ?thesis by (simp add: card_run_def presence_exiting_def)
  next
    case (snoc rs' r)
    obtain t' e' where "r = (t', e')" by (cases r)
    then show ?thesis
      by (simp add: snoc card_run_snoc presence_exiting_def card_children_def)
  qed
  show "presence_mounted (card_run d p (rs @ [(t, e)])) = map (\<lambda>(_, x, _). x) (card_children e p)"
    by (simp add: card_run_snoc presence_mounted_def card_children_def)
qed

text \<open>C27: The mobile menu, by contrast, plays its exit, because its panel declares one
  (line 87): opened and then closed at time \<open>now\<close>, whatever renders came before, its
  panel stays mounted through any later renders with the menu closed as long as they all
  come before \<open>now + d\<close>, and is gone from the first render at or after \<open>now + d\<close>.\<close>

theorem menu_exit_plays:
  assumes "sorted (now # ts)" and "ts \<noteq> []"
  shows "presence_mounted (menu_run d (rs @ [(t0, True), (now, False)] @ map (\<lambda>t. (t, False)) ts)) =
           (if last ts < now + d then [Menu_panel] else [])"
proof -
  have "(\<exists>t \<in> set ts. now + d \<le> t) \<longleftrightarrow> now + d \<le> last ts"
    using assms sorted_le_last [of ts] by (auto simp: last_in_set intro: order_trans)
  moreover have "menu_run d (rs @ [(t0, True), (now, False)] @ map (\<lambda>t. (t, False)) ts) =
      fold (\<lambda>(t, m). presence_step d t (menu_children m)) (map (\<lambda>t. (t, False)) ts)
        [('''', Menu_panel, True, Some (now + d))]"
    using menu_run_open_close [of d rs t0 now] by (simp add: menu_run_def)
  ultimately show ?thesis
    by (simp add: menu_closed_renders presence_mounted_def not_le)
qed

theorem menu_exit_plays_witness:
  "presence_mounted (menu_run 300 ([] @ [(0, True), (100, False)] @ map (\<lambda>t. (t, False)) [200, 300])) =
     [Menu_panel] \<and>
   presence_mounted (menu_run 300 ([] @ [(0, True), (100, False)] @ map (\<lambda>t. (t, False)) [200, 400])) = []"
proof
  show "presence_mounted (menu_run 300 ([] @ [(0, True), (100, False)] @ map (\<lambda>t. (t, False)) [200, 300])) =
     [Menu_panel]"
    using menu_exit_plays [of 100 "[200, 300]" 300 "[]" 0] by simp
  show "presence_mounted (menu_run 300 ([] @ [(0, True), (100, False)] @ map (\<lambda>t. (t, False)) [200, 400])) = []"
    using menu_exit_plays [of 100 "[200, 400]" 300 "[]" 0] by simp
qed

text \<open>C28: Across all project cards rendered from the same sequence of expanded ids, at
  most one case-study panel is mounted at any time: the mutual exclusion of the state
  (spec, section 3) holds in the document too, because no case study lingers in an exit
  animation.\<close>

theorem at_most_one_case_panel_mounted:
  "length (filter is_case_panel (concat (map (\<lambda>p. presence_mounted (card_run d p rs)) projects))) \<le> 1"
proof (cases rs rule: rev_exhaust)
  case Nil
  then show ?thesis by (simp add: card_run_def presence_mounted_def projects_def)
next
  case (snoc rs' r)
  obtain t e where "r = (t, e)" by (cases r)
  then show ?thesis
    by (simp add: snoc card_run_snoc presence_mounted_def card_children_def projects_def
        is_expanded_def split: option.splits)
qed

end
