(* ===== verification/Motion.thy ===== *)
theory Motion
  imports Skills Projects
begin

text \<open>
  The scroll-triggered animations of the page, with framer-motion's timing rules (modelled from
  its documentation, times in milliseconds):
  \<^item> \<open>whileInView\<close> with \<open>viewport={{ once: true }}\<close>: an element starts its animation
    when it first intersects the viewport and never animates again (lines 232-673);
  \<^item> the \<open>delay\<close> and \<open>duration\<close> of a \<open>transition\<close> shift and stretch one animation.
  The layout, where each element lies in the document, is a parameter: the page's CSS
  and the viewport size decide it. Times in the source are seconds (\<open>0.1\<close>); they are
  kept as the exact millisecond values, ignoring the rounding of the double products.
\<close>

section \<open>Reveal on first view\<close>

record box =
  box_top :: px
  box_bottom :: px

text \<open>The viewport \<open>[y, y + h)\<close> and an element intersect (framer-motion's default
  \<open>amount: "some"\<close>).\<close>

definition in_view :: "px \<Rightarrow> px \<Rightarrow> box \<Rightarrow> bool" where
  "in_view y h b \<longleftrightarrow> box_top b < y + h \<and> y < box_bottom b"

text \<open>One observation at time \<open>now\<close> with the window scrolled to \<open>y\<close>: the elements seen
  for the first time record \<open>now\<close> as their reveal time; \<open>once: true\<close> keeps every
  earlier reveal.\<close>

definition reveal_observe ::
  "ms \<Rightarrow> px \<Rightarrow> px \<Rightarrow> ('el \<Rightarrow> box) \<Rightarrow> 'el list \<Rightarrow> ('el \<Rightarrow> ms option) \<Rightarrow> ('el \<Rightarrow> ms option)" where
  "reveal_observe now y h layout els r =
     (\<lambda>x. if x \<in> set els \<and> r x = None \<and> in_view y h (layout x) then Some now else r x)"

definition reveal_run ::
  "px \<Rightarrow> ('el \<Rightarrow> box) \<Rightarrow> 'el list \<Rightarrow> (ms \<times> px) list \<Rightarrow> ('el \<Rightarrow> ms option) \<Rightarrow> ('el \<Rightarrow> ms option)" where
  "reveal_run h layout els obs r = fold (\<lambda>(t, y). reveal_observe t y h layout els) obs r"

text \<open>The declarative reading: the time of the first observation that sees the element.\<close>

definition first_in_view :: "px \<Rightarrow> box \<Rightarrow> (ms \<times> px) list \<Rightarrow> ms option" where
  "first_in_view h b obs = map_option fst (find (\<lambda>(t, y). in_view y h b) obs)"

section \<open>The page's revealed elements\<close>

datatype reveal_el =
    About_heading | About_intro | About_tag nat | About_education | Education_card nat
  | Projects_heading | Project_card nat | Skills_heading | Skill_category nat | Skill_bar nat nat
  | Contact_heading | Contact_form_column | Contact_info_column

text \<open>Every \<open>whileInView\<close> element of the page, in render order: lines 232, 247, 268-270,
  284, 296-298, 368, 383-385, 506, 521-523, 539-544, 582, 597 and 668.\<close>

definition reveal_elements :: "reveal_el list" where
  "reveal_elements =
     [About_heading, About_intro] @ map About_tag [0..<length about_skills] @ [About_education] @
     map Education_card [0..<length educations] @
     [Projects_heading] @ map Project_card [0..<length projects] @
     [Skills_heading] @ map Skill_category [0..<length skill_categories] @
     concat (map (\<lambda>c. map (Skill_bar c) [0..<length (cat_skills (skill_categories ! c))])
                 [0..<length skill_categories]) @
     [Contact_heading, Contact_form_column, Contact_info_column]"

text \<open>The \<open>delay\<close> of each element's transition: lines 274, 302, 389, 527 and 543; the
  others have none.\<close>

fun reveal_delay :: "reveal_el \<Rightarrow> ms" where
  "reveal_delay (About_tag i) = i * 100"
| "reveal_delay (Education_card i) = i * 200"
| "reveal_delay (Project_card i) = i * 100"
| "reveal_delay (Skill_category i) = i * 100"
| "reveal_delay (Skill_bar c i) = i * 100"
| "reveal_delay _ = 0"

text \<open>A skill bar, lines 539-544: width \<open>0\<close> until its animation starts, then a one-second
  animation to \<open>skill.percentage\<close>; \<open>None\<close> while it runs (the easing is not modelled).\<close>

definition skill_bar_duration :: ms where
  "skill_bar_duration = 1000"

definition bar_width_at :: "ms \<Rightarrow> (reveal_el \<Rightarrow> ms option) \<Rightarrow> nat \<Rightarrow> nat \<Rightarrow> nat option" where
  "bar_width_at now r c i =
     (case r (Skill_bar c i) of
        None \<Rightarrow> Some 0
      | Some t \<Rightarrow>
          (let start = t + reveal_delay (Skill_bar c i) in
           if now \<le> start then Some 0
           else if start + skill_bar_duration \<le> now
           then Some (percentage (cat_skills (skill_categories ! c) ! i))
           else None))"

section \<open>Lemmas\<close>

lemma reveal_observe_at:
  "reveal_observe now y h layout els r x =
     (if x \<in> set els \<and> r x = None \<and> in_view y h (layout x) then Some now else r x)"
  by (simp add: reveal_observe_def)

text \<open>The incremental reveal state is the declarative first sighting.\<close>

lemma reveal_run_first:
  "reveal_run h layout els obs r x =
     (case r x of Some t \<Rightarrow> Some t
      | None \<Rightarrow> if x \<in> set els then first_in_view h (layout x) obs else None)"
proof (induction obs arbitrary: r)
  case Nil
  then show ?case by (simp add: reveal_run_def first_in_view_def split: option.split)
next
  case (Cons o1 obs)
  obtain t y where o1: "o1 = (t, y)" by (cases o1)
  have step: "reveal_run h layout els (o1 # obs) r = reveal_run h layout els obs (reveal_observe t y h layout els r)"
    by (simp add: reveal_run_def o1)
  show ?case
    unfolding step Cons.IH [of "reveal_observe t y h layout els r"]
    by (simp add: reveal_observe_at first_in_view_def o1 split: option.split)
qed

lemma skill_categories_lengths:
  "c < length skill_categories \<Longrightarrow> length (cat_skills (skill_categories ! c)) = 4"
  by (auto simp: skill_categories_def less_Suc_eq)

lemma skill_bar_listed:
  assumes "c < length skill_categories" and "i < length (cat_skills (skill_categories ! c))"
  shows "Skill_bar c i \<in> set reveal_elements"
proof -
  have "Skill_bar c i \<in> set (concat (map (\<lambda>c. map (Skill_bar c) [0..<length (cat_skills (skill_categories ! c))])
                 [0..<length skill_categories]))"
    using assms by (auto intro!: bexI [of _ c])
  then show ?thesis by (simp only: reveal_elements_def set_append Un_iff) blast
qed


text \<open>C30: A skill bar first seen at time \<open>t\<close> shows its full percentage from
  \<open>t + 1300\<close> on: its delay is at most 300 ms (four skills per category, 100 ms apart)
  and its animation lasts 1000 ms.\<close>

theorem skill_bar_full_after_reveal:
  assumes "first_in_view h (layout (Skill_bar c i)) obs = Some t"
    and "c < length skill_categories" and "i < length (cat_skills (skill_categories ! c))"
    and "t + 1300 \<le> now"
  shows "bar_width_at now (reveal_run h layout reveal_elements obs (\<lambda>_. None)) c i =
           Some (percentage (cat_skills (skill_categories ! c) ! i))"
proof -
  have "reveal_run h layout reveal_elements obs (\<lambda>_. None) (Skill_bar c i) = Some t"
    using assms(1) skill_bar_listed [OF assms(2,3)] by (simp add: reveal_run_first)
  moreover have "i < 4"
    using assms(3) skill_categories_lengths [OF assms(2)] by simp
  ultimately show ?thesis
    using assms(4) by (simp add: bar_width_at_def skill_bar_duration_def)
qed

theorem skill_bar_full_after_reveal_witness:
  "bar_width_at 1400 (reveal_run 800 (\<lambda>_. \<lparr>box_top = 900, box_bottom = 1000\<rparr>) reveal_elements
     [(0, 0), (100, 400), (2000, 0)] (\<lambda>_. None)) 0 2 = Some 75"
proof -
  have "first_in_view 800 \<lparr>box_top = 900, box_bottom = 1000\<rparr> [(0, 0), (100, 400), (2000, 0)] = Some 100"
    by (simp add: first_in_view_def in_view_def)
  from skill_bar_full_after_reveal [OF this] show ?thesis
    by (simp add: skill_categories_def)
qed

end
