(* ===== verification/Spec2Isabelle.thy ===== *)
theory Spec2Isabelle
  imports EventLoop Navigation Presence Motion
begin

text \<open>
  \<^bold>\<open>A verification model of the portfolio page.\<close>

  \<^emph>\<open>The program.\<close> \<open>src/app/page.js\<close> is one client component, \<open>Home\<close>
  (lines 786-844), that renders \<open>Navbar\<close>, \<open>Hero\<close>, \<open>About\<close>, \<open>Projects\<close>,
  \<open>Skills\<close>, \<open>Contact\<close> and \<open>Footer\<close>; \<open>src/app/layout.js\<close> sets the
  metadata and the \<open><html>\<close> element.
  \<open>Home\<close> owns three hooks (\<open>isDark\<close>, \<open>isScrolled\<close>, \<open>mobileMenuOpen\<close>) and
  four effects: follow the system colour scheme, apply and persist the theme, load the
  saved theme, subscribe the scroll handler. It passes its state and setters to
  \<open>Navbar\<close>. \<open>Projects\<close> owns \<open>expandedProject\<close>; \<open>Contact\<close> owns the draft
  \<open>formData\<close> and \<open>submitted\<close>, with a 3-second \<open>setTimeout\<close> that resets the
  latter. Everything else is static data and markup.

  \<^emph>\<open>The theories.\<close>
  \<^item> \<open>Prelude\<close>: the result type of throwing calls (\<open>'e + 'a\<close>, \<open>ok_bind\<close>),
    JavaScript falsiness of a stored string, React's last-update-wins queue, shared
    list lemmas.
  \<^item> \<open>Browser\<close>: the platform the code calls, modelled from the Web standards and not
    from the repository: \<open>localStorage\<close> (with a full and a denied mode that throw),
    the root element's class list, \<open>matchMedia\<close>, \<open>scrollY\<close> and the scroll listener,
    a millisecond clock and the \<open>setTimeout\<close> queue (due callbacks fire in due-time
    order).
  \<^item> \<open>Theme\<close>: the theme effects of lines 792-816 and the toggle of lines 52/65, as
    functions \<open>browser \<Rightarrow> dom_error + \<dots>\<close>; \<open>mount_theme\<close> is the first commit with
    \<open>isDark = false\<close>, the three effects in source order, and the re-render applying the
    queued \<open>setIsDark\<close>, which re-runs the \<open>[isDark]\<close> effect only when the value
    changed. Lemmas: what each effect does on each storage mode, the dead load effect,
    mount and toggle in closed form.
  \<^item> \<open>Scroll\<close>, \<open>Navbar\<close>: the scroll handler and its effect (lines 818-825); the
    links, the menu state changes and the rendered bar (lines 11-107).
  \<^item> \<open>Projects\<close>: the project data, \<open>expandedProject\<close>, the button (line 454) and
    the card rendering (lines 383-465), with a refinement of the spec's toggle contract on
    the set of expanded cards.
  \<^item> \<open>JsString\<close>: \<open>String.prototype.replace\<close> with a string pattern as a scanner,
    proved equal to the ECMA-262 formulation through \<open>StringIndexOf\<close>; integer
    \<open>toString\<close> for the skill bar labels and widths.
  \<^item> \<open>Contact\<close>: the draft, the field handlers, \<open>handleSubmit\<close>, the timer callback,
    the form/success switch (lines 607-665), the browser's constraint validation
    (required fields, HTML e-mail syntax) that gates the submit, including its boundary
    (fields of spaces only), the social link labels.
  \<^item> \<open>Skills\<close>: the static data of \<open>About\<close> and \<open>Skills\<close> and the bar widths.
  \<^item> \<open>Page\<close>: the whole page as a deterministic step function \<open>page_step\<close> over an
    \<open>event\<close> datatype (mount, unmount, reload, clicks, edits, submit, scroll, time,
    OS scheme change), with the tree's phase (\<open>Unmounted\<close>, \<open>Mounted\<close>,
    \<open>Crashed\<close>), a mount counter that identifies component instances, and the browser.
    \<open>reachable\<close> is the inductive set of states from a first load; \<open>page_inv\<close> is
    the invariant, proved for every step kind separately and lifted by rule induction.
  \<^item> \<open>EventLoop\<close>: the browser's event loop over timers, one task per due callback,
    as a \<open>while_option\<close> loop (HOL-Library.While_Combinator); it returns (a measure on
    the queue length) and ends in the state of the batch step \<open>page_tick\<close>, which the
    page model uses for \<open>Tick\<close>.
  \<^item> \<open>PageStorage\<close>: which steps write \<open>localStorage\<close>, and the invariant that the
    saved theme is one of the two values effect 3 understands once the page has mounted.
  \<^item> \<open>Document\<close>: \<open>Hero\<close> (lines 109-202), \<open>Footer\<close> (lines 724-783), the render
    order of \<open>Home\<close>'s children and their section ids, fragment links and their
    targets, and the root layout.
  \<^item> \<open>Sections\<close>: the section elements with their ids and heading blocks around
    the section bodies (\<open>section_shell\<close>), the \<open>About\<close> content (lines 229-327) and
    the contact information column (lines 666-715).
  \<^item> \<open>Navigation\<close>: following an in-page link: the click handler, then the browser's
    scroll to the fragment's target (section tops are a layout parameter), with a scroll
    event only when the offset changes.
  \<^item> \<open>Presence\<close>: framer-motion's \<open>AnimatePresence\<close> (children tracked by key; a
    removed child that declares an \<open>exit\<close> stays mounted for an exit duration
    \<open>d\<close>, one without is removed at once) and its two uses, the mobile menu (whose
    panel declares an exit, line 87) and the body of each project card.
  \<^item> \<open>Motion\<close>: \<open>whileInView\<close> with \<open>viewport once\<close> over a layout given as a
    parameter, and the width animation of the skill bars.
  \<^item> \<open>HomeView\<close>: the rendered page, the composition of the section views with the
    page state (lines 827-843), or nothing when no instance is mounted.
  \<^item> This theory: properties that span components.

  \<^emph>\<open>React semantics assumed.\<close> Effects run after a commit, in source order, children
  before parents; a setter called in an effect or handler queues a value applied by the
  next render, the last one winning; an equal value does not re-render; an effect with
  dependencies re-runs only when they changed; a setter of an unmounted instance is
  ignored; an uncaught error in an effect or handler unmounts the tree (no error
  boundary), running the cleanups of the effects that ran. Development-mode Strict Mode
  (effects run, cleaned up and run again) is not modelled: the scroll listener is a
  flag in the browser model, so the case it exists to expose, a cleanup that does not
  unsubscribe, could not be observed. Server rendering and hydration are not modelled.

  \<^emph>\<open>Bounds and termination.\<close> Every recursive definition is structural or accepted
  by \<open>fun\<close> with its automatic measure (\<open>nat_digits\<close>, \<open>js_replace_first\<close>), so
  no fuel is needed. The one loop that could in principle run forever, the event loop
  over timers, is a \<open>while_option\<close>: it would not stop if a callback scheduled a new
  due timer, and C22 proves that here it returns, because the page's only callback
  schedules none, and that it equals the batch step. Time is a \<open>nat\<close> of milliseconds
  and a \<open>Tick d\<close> fires every callback due within it. Scroll offsets are \<open>int\<close> CSS
  pixels (fractional offsets compare the same way against 50 and are not modelled).
  The exit duration \<open>d\<close> of \<open>AnimatePresence\<close> is a parameter: the page sets no
  duration, and every result holds for any \<open>d\<close>.

  \<^emph>\<open>Results.\<close> C1, C13-C16: the page invariant (document class and stored theme
  follow \<open>isDark\<close>; the listener is registered exactly while mounted; no crash with a
  working storage; the expanded id is a listed project; at most one pending reset,
  present exactly while the success message shows). C2-C5, C20: the theme controller,
  including the finding that the saved theme is never read back (effect 2 overwrites it
  before effect 3 reads it), that a refusing storage makes the page throw, and that a
  toggle flips the theme and its persisted copies while two restore the page. C6-C9:
  the showcase (one click expands exactly the clicked card, a second collapses it).
  C10, C11, C17, C18, C21, C29: the contact section and its timer, end to end,
  including that a stale callback of an earlier mount cannot cut a message short and
  that the required checks accept fields of spaces only (finding). C12: a mobile menu
  link closes the menu and scrolls to its section, updating the bar's flag only if the
  window moved. C19: a scroll event sets the bar's flag. C22: the timer event loop
  returns and equals the batch step, given in closed form. C23: the saved theme is
  always \<open>'light'\<close> or \<open>'dark'\<close> after a mount with a working storage. C24: whenever
  the page shows, the theme button's icon agrees with the document's class. C25: with a
  storage that refuses writes the page never shows (finding). C26-C28:
  \<open>AnimatePresence\<close>: the case study's exit animation never plays (finding), the mobile
  menu's does, for any renders before and after, and at most one case study is ever
  mounted. C30: a skill bar is full 1.3 s after it is first seen (over the lemma that
  the reveal-once state is the first sighting).

  \<^emph>\<open>Not modelled.\<close> Styling: the Inter font, the CSS classes of the markup and
  \<open>globals.css\<close>, which layout.js imports but the repository does not contain;
  framer-motion's easing curves, springs, hover and tap gestures, the entrance
  animations with no state of the page (the hero's variant orchestration and scroll
  hint loop, the navbar slide-in, the success message) and the layout measurement that
  decides when an element is in view (a parameter of the model); the never-rendered
  \<open>icon\<close> field of the skills; the browser's sanitisation of input values (the events
  carry the sanitised value); \<open>$\<close> patterns of \<open>replace\<close> (the page's replacements
  contain none); the class-list change made by effect 2 just before a throwing
  \<open>setItem\<close> (the failing result keeps the browser before the effect; with a failing
  storage no \<open>dark\<close> class is ever added, so the lost removal is a no-op). Text is
  kept as the bytes of the source; how the browser decodes them is not modelled (the
  copyright line's bytes C2 AC C2 A9 are a finding read from the source).

  \<^emph>\<open>Why three components stay partly modelled.\<close> The browser environment, the
  JavaScript built-ins and framer-motion are not code of this repository: they are
  modelled from their standards and documentation only as far as the page calls them
  (\<open>localStorage\<close>, \<open>classList\<close>, \<open>matchMedia\<close>, scrolling, timers, fragment
  navigation; \<open>replace\<close>, \<open>indexOf\<close>, \<open>toString\<close>; presence and reveal-once),
  and a complete model of them is out of scope. Every operation of the repository's own
  code that changes state is a definition of the development; what remains of src/ is
  markup, styling and animation timing listed above.

  \<^emph>\<open>Possible extensions.\<close> The reveals an in-page navigation triggers, under a layout
  that relates section tops to element boxes; a storage that fails only on some writes
  (quota reached between two writes).
\<close>

section \<open>Properties across components\<close>

text \<open>C3: a reload ignores the saved theme: with a working storage the page comes up
  mounted with \<open>isDark\<close> equal to the system preference, whatever was persisted. The
  spec's "persisted preference is read back on reload" does not hold.\<close>

theorem reload_forgets_saved_theme:
  assumes "storage_mode (browser p) = Storage_ok"
  shows "phase (page_step Reload p) = Mounted \<and> is_dark (page_step Reload p) = prefers_dark (browser p)"
  using assms by (simp add: mount_home_ok home_initial_def fresh_document_def)

theorem reload_forgets_saved_theme_witness:
  "is_dark (page_step Reload (page_run [Mount, Toggle_theme]
      (init_page (first_load_browser Map.empty False)))) = False \<and>
   local_storage (browser (page_run [Mount, Toggle_theme]
      (init_page (first_load_browser Map.empty False)))) ''theme'' = Some ''dark'' \<and>
   spec_theme_on_load (Some ''dark'') False = True"
proof -
  let ?p = "page_run [Mount, Toggle_theme] (init_page (first_load_browser Map.empty False))"
  have ok: "storage_mode (browser ?p) = Storage_ok" and os: "prefers_dark (browser ?p) = False"
    and saved: "local_storage (browser ?p) ''theme'' = Some ''dark''"
    by code_simp+
  from reload_forgets_saved_theme [OF ok] os saved show ?thesis
    by (simp add: spec_theme_on_load_def)
qed

text \<open>C20: on a mounted page with a working storage, a click on the theme button
  inverts \<open>isDark\<close> and persists the new theme, and the document class follows it; a
  second click gives back exactly the same page state: theme, document class and stored
  value.\<close>

theorem toggle_theme_twice_page:
  assumes "reachable p" and "phase p = Mounted" and "storage_mode (browser p) = Storage_ok"
  shows "is_dark (page_step Toggle_theme p) = (\<not> is_dark p) \<and>
         local_storage (browser (page_step Toggle_theme p)) ''theme'' = Some (theme_value (\<not> is_dark p)) \<and>
         (''dark'' \<in> root_classes (browser (page_step Toggle_theme p)) \<longleftrightarrow> \<not> is_dark p) \<and>
         page_run [Toggle_theme, Toggle_theme] p = p"
proof -
  have "theme_synced (is_dark p) (browser p)"
    using reachable_page_inv [OF assms(1)] assms(2) by (simp add: page_inv_def)
  then have ls: "(local_storage (browser p))(''theme'' \<mapsto> theme_value (is_dark p)) = local_storage (browser p)"
    and rc: "dark_classes (is_dark p) (root_classes (browser p)) = root_classes (browser p)"
    by (simp_all add: theme_synced_def fun_upd_idem synced_dark_classes)
  from assms(2,3) have "page_run [Toggle_theme, Toggle_theme] p = p"
    by (simp add: page_run_def page_toggle_theme_ok dark_classes_twice ls rc)
  moreover from assms(2,3) have "is_dark (page_step Toggle_theme p) = (\<not> is_dark p) \<and>
      local_storage (browser (page_step Toggle_theme p)) ''theme'' = Some (theme_value (\<not> is_dark p)) \<and>
      (''dark'' \<in> root_classes (browser (page_step Toggle_theme p)) \<longleftrightarrow> \<not> is_dark p)"
    by (simp add: page_toggle_theme_ok dark_classes_def)
  ultimately show ?thesis
    by blast
qed

theorem toggle_theme_twice_page_witness:
  "let p = page_run [Mount] (init_page (first_load_browser Map.empty True)) in
   is_dark (page_step Toggle_theme p) = (\<not> is_dark p) \<and>
   local_storage (browser (page_step Toggle_theme p)) ''theme'' = Some (theme_value (\<not> is_dark p)) \<and>
   (''dark'' \<in> root_classes (browser (page_step Toggle_theme p)) \<longleftrightarrow> \<not> is_dark p) \<and>
   page_run [Toggle_theme, Toggle_theme] p = p"
proof -
  have "phase (page_run [Mount] (init_page (first_load_browser Map.empty True))) = Mounted"
    and "storage_mode (browser (page_run [Mount] (init_page (first_load_browser Map.empty True)))) = Storage_ok"
    by code_simp+
  with toggle_theme_twice_page [OF reachable_first_load] show ?thesis
    unfolding Let_def by blast
qed

text \<open>C21: section 8 of the spec, end to end: on a mounted page with no message shown,
  filling the three fields with valid values and submitting clears the draft and shows
  the success message; 2999 ms later it is still shown, 3000 ms later it is gone.\<close>

theorem contact_submit_scenario:
  assumes "reachable p" and "phase p = Mounted" and "\<not> submitted (contact p)"
    and "form_valid \<lparr>name = n, email = e, message = m\<rparr>"
  shows "let q = page_run [Edit Name_field n, Edit Email_field e, Edit Message_field m, Submit] p
         in submitted (contact q) \<and> form_data (contact q) = empty_form \<and>
            submitted (contact (page_step (Tick 2999) q)) \<and>
            \<not> submitted (contact (page_step (Tick 3000) q))"
proof -
  let ?q = "page_run [Edit Name_field n, Edit Email_field e, Edit Message_field m, Submit] p"
  let ?R = "Reset_submitted (mount_count p)"
  have inv: "submit_timer_inv p"
    using reachable_page_inv [OF assms(1)] assms(2) by (simp add: page_inv_def)
  with assms(3) have none: "own_timers p = []"
    by (simp add: submit_timer_inv_def)
  have q: "?q = p\<lparr>contact := \<lparr>form_data = empty_form, submitted = True\<rparr>,
                  browser := (browser p)\<lparr>timers := timers (browser p) @ [(clock (browser p) + 3000, ?R)]\<rparr>\<rparr>"
    using assms(2,3,4)
    by (simp add: page_run_def dispatch_change_def page_submit_def dispatch_submit_def
        handle_submit_eq contact_form_full_update)
  have rq: "reachable ?q"
    using assms(1) by (rule reachable_run)
  have mq: "phase ?q = Mounted"
    using assms(2) by (simp add: q)
  have own: "own_timers ?q = [(clock (browser p) + 3000, ?R)]"
    using none by (simp add: q own_timers_def)
  have cq: "clock (browser ?q) = clock (browser p)"
    by (simp add: q)
  have invq: "submit_timer_inv ?q"
    using reachable_page_inv [OF rq] mq by (simp add: page_inv_def)
  show ?thesis
    using page_tick_submitted [OF invq mq, of 2999] page_tick_submitted [OF invq mq, of 3000]
    by (simp add: Let_def own cq) (simp add: q)
qed

theorem contact_submit_scenario_witness:
  "let q = page_run [Edit Name_field ''Ann'', Edit Email_field ''ann@example.com'',
             Edit Message_field ''Hello'', Submit]
             (page_run [Mount] (init_page (first_load_browser Map.empty False)))
   in submitted (contact q) \<and> form_data (contact q) = empty_form \<and>
      submitted (contact (page_step (Tick 2999) q)) \<and>
      \<not> submitted (contact (page_step (Tick 3000) q))"
proof -
  let ?p = "page_run [Mount] (init_page (first_load_browser Map.empty False))"
  have "phase ?p = Mounted" and "\<not> submitted (contact ?p)"
    and "form_valid \<lparr>name = ''Ann'', email = ''ann@example.com'', message = ''Hello''\<rparr>"
    by code_simp+
  with contact_submit_scenario [OF reachable_first_load] show ?thesis
    by blast
qed

end
